theory Spec2Isabelle
  imports Main
begin

section \<open>Exceptions (lib/exceptions.py and the built-in ones the plugin can raise)\<close>

text \<open>
  The five \<open>PluginError\<close> subclasses carry their message.  \<open>KeyError\<close>, \<open>ValueError\<close>,
  \<open>TypeError\<close> and \<open>IndexError\<close> are the built-in exceptions raised by \<open>dict.pop\<close>,
  \<open>int(...)\<close> and list indexing in lib/plugin.py.  All of them derive from \<open>Exception\<close>.
\<close>

datatype error =
    OneLoginClientError string
  | UserNotFound string
  | FactorNotFound string
  | TimeOutError string
  | APIResponseError string
  | KeyError string
  | ValueError
  | TypeError
  | IndexError

section \<open>The provider client (external collaborator of lib/authenticator.py)\<close>

record user =
  user_id :: int

record otp_device =
  device_id :: int
  user_display_name :: string
  is_default :: bool

record factor_enrollment_response =
  activation_id :: int

text \<open>
  Every call made on the client is recorded, in order, in the world, next to the wall
  clock.  The clock counts the time units of the two polling constants.
\<close>

datatype call =
    GetUsers "(string \<times> string) list"
  | GetEnrolledFactors int
  | VerifyFactor int int string
  | ActivateFactor int int "int option"
  | VerifyFactorPoll int int

record world =
  clock :: nat
  calls :: "call list"

text \<open>
  The client is a parameter.  A lookup answers \<open>None\<close> when the provider call failed, as
  the \<open>is None\<close> tests of the authenticator expect.  The answer to a poll is scripted by
  the number of polls made before it, and comes with the time the call took.
\<close>

record client =
  client_get_users :: "(string \<times> string) list \<Rightarrow> user list option"
  client_get_enrolled_factors :: "int \<Rightarrow> otp_device list option"
  client_verify_factor :: "int \<Rightarrow> int \<Rightarrow> string \<Rightarrow> bool"
  client_activate_factor :: "int \<Rightarrow> int \<Rightarrow> int option \<Rightarrow> factor_enrollment_response option"
  client_verify_factor_poll :: "int \<Rightarrow> int \<Rightarrow> nat \<Rightarrow> string \<times> nat"
  client_error_description :: string

definition record_call :: "call \<Rightarrow> world \<Rightarrow> world" where
  "record_call k w = w\<lparr>calls := calls w @ [k]\<rparr>"

fun is_poll :: "call \<Rightarrow> bool" where
  "is_poll (VerifyFactorPoll u a) = True"
| "is_poll k = False"

definition polls_made :: "world \<Rightarrow> nat" where
  "polls_made w = length (filter is_poll (calls w))"

text \<open>
  \<open>time.sleep(secs)\<close> suspends for \<open>secs\<close>; what a real sleep adds on top is time that
  passes before the next reading of the clock, like the duration of the poll before it,
  and is counted there.  \<open>datetime.now()\<close> reads \<open>clock\<close>.
\<close>

definition sleep :: "nat \<Rightarrow> world \<Rightarrow> world" where
  "sleep secs w = w\<lparr>clock := clock w + secs\<rparr>"

section \<open>lib/authenticator.py\<close>

record authenticator =
  client_of :: client
  user_attribute :: string

definition PUSH_VERIFICATION_POLL_FREQUENCY :: nat where
  "PUSH_VERIFICATION_POLL_FREQUENCY = 5"

definition PUSH_VERIFICATION_POLL_TIMEOUT :: nat where
  "PUSH_VERIFICATION_POLL_TIMEOUT = 60"

text \<open>
  \<open>query_params = {self._user_attribute: username, "fields": "id"}\<close>: in a dict display a
  repeated key keeps its first position and its last value.
\<close>

definition query_params :: "string \<Rightarrow> string \<Rightarrow> (string \<times> string) list" where
  "query_params attr username =
     (if attr = ''fields'' then [(''fields'', ''id'')]
      else [(attr, username), (''fields'', ''id'')])"

text \<open>\<open>users.pop()\<close> removes and returns the last element; it is reached with one element.\<close>

definition get_user :: "authenticator \<Rightarrow> string \<Rightarrow> world \<Rightarrow> (error + user) \<times> world" where
  "get_user self username w =
     (let w1 = record_call (GetUsers (query_params (user_attribute self) username)) w in
      case client_get_users (client_of self) (query_params (user_attribute self) username) of
        None \<Rightarrow> (Inl (APIResponseError (client_error_description (client_of self))), w1)
      | Some users \<Rightarrow>
          if length users > 1 then
            (Inl (APIResponseError (''More than one user found for user: '' @ username
                     @ '' based on attribute: '' @ user_attribute self)), w1)
          else if length users < 1 then
            (Inl (UserNotFound (''No user found for user: '' @ username
                     @ '' based on attribute: '' @ user_attribute self)), w1)
          else (Inr (last users), w1))"

definition get_enrolled_factors ::
    "authenticator \<Rightarrow> string \<Rightarrow> world \<Rightarrow> (error + otp_device list) \<times> world" where
  "get_enrolled_factors self username w =
     (case get_user self username w of
        (Inl e, w1) \<Rightarrow> (Inl e, w1)
      | (Inr u, w1) \<Rightarrow>
          (let w2 = record_call (GetEnrolledFactors (user_id u)) w1 in
           case client_get_enrolled_factors (client_of self) (user_id u) of
             None \<Rightarrow> (Inl (APIResponseError (client_error_description (client_of self))), w2)
           | Some factors \<Rightarrow> (Inr factors, w2)))"

text \<open>\<open>next((factor for factor in factors if factor.default), None)\<close>\<close>

fun next_default :: "otp_device list \<Rightarrow> otp_device option" where
  "next_default [] = None"
| "next_default (factor # factors) = (if is_default factor then Some factor else next_default factors)"

definition get_default_factor ::
    "authenticator \<Rightarrow> string \<Rightarrow> world \<Rightarrow> (error + otp_device) \<times> world" where
  "get_default_factor self username w =
     (case get_enrolled_factors self username w of
        (Inl e, w1) \<Rightarrow> (Inl e, w1)
      | (Inr factors, w1) \<Rightarrow>
          (case next_default factors of
             None \<Rightarrow> (Inl (FactorNotFound ''No default MFA factor found''), w1)
           | Some default_factor \<Rightarrow> (Inr default_factor, w1)))"

definition activate_factor ::
    "authenticator \<Rightarrow> int \<Rightarrow> int \<Rightarrow> int option \<Rightarrow> world
       \<Rightarrow> (error + factor_enrollment_response) \<times> world" where
  "activate_factor self uid fid expires_in w =
     (let w1 = record_call (ActivateFactor uid fid expires_in) w in
      case client_activate_factor (client_of self) uid fid expires_in of
        None \<Rightarrow> (Inl (APIResponseError (client_error_description (client_of self))), w1)
      | Some response \<Rightarrow> (Inr response, w1))"

text \<open>
  \<open>factor_id = factor_id or self._get_default_factor(username).id\<close>: the left operand is
  kept when it is truthy, that is neither \<open>None\<close> nor \<open>0\<close>; otherwise the default factor
  is looked up.
\<close>

fun factor_id_or_default ::
    "authenticator \<Rightarrow> string \<Rightarrow> int option \<Rightarrow> world \<Rightarrow> (error + int) \<times> world" where
  "factor_id_or_default self username (Some factor_id) w =
     (if factor_id \<noteq> 0 then (Inr factor_id, w)
      else (case get_default_factor self username w of
              (Inl e, w1) \<Rightarrow> (Inl e, w1)
            | (Inr d, w1) \<Rightarrow> (Inr (device_id d), w1)))"
| "factor_id_or_default self username None w =
     (case get_default_factor self username w of
        (Inl e, w1) \<Rightarrow> (Inl e, w1)
      | (Inr d, w1) \<Rightarrow> (Inr (device_id d), w1))"

definition otp_authenticate ::
    "authenticator \<Rightarrow> string \<Rightarrow> string \<Rightarrow> int option \<Rightarrow> world \<Rightarrow> (error + bool) \<times> world" where
  "otp_authenticate self username otp factor_id w =
     (case get_user self username w of
        (Inl e, w1) \<Rightarrow> (Inl e, w1)
      | (Inr u, w1) \<Rightarrow>
          (case factor_id_or_default self username factor_id w1 of
             (Inl e, w2) \<Rightarrow> (Inl e, w2)
           | (Inr fid, w2) \<Rightarrow>
               (Inr (client_verify_factor (client_of self) (user_id u) fid otp),
                record_call (VerifyFactor (user_id u) fid otp) w2)))"

text \<open>One call of \<open>verify_factor_poll\<close>: it is logged and the clock advances by its duration.\<close>

definition poll_response :: "authenticator \<Rightarrow> int \<Rightarrow> int \<Rightarrow> world \<Rightarrow> string \<times> nat" where
  "poll_response self uid aid w = client_verify_factor_poll (client_of self) uid aid (polls_made w)"

definition after_poll :: "authenticator \<Rightarrow> int \<Rightarrow> int \<Rightarrow> world \<Rightarrow> world" where
  "after_poll self uid aid w =
     record_call (VerifyFactorPoll uid aid) (w\<lparr>clock := clock w + snd (poll_response self uid aid w)\<rparr>)"

text \<open>
  The \<open>while expires_at > datetime.now()\<close> loop of \<open>push_authenticate\<close>.  It ends because
  every \<open>pending\<close> round sleeps for the poll interval.
\<close>

function push_poll_loop ::
    "authenticator \<Rightarrow> int \<Rightarrow> int \<Rightarrow> nat \<Rightarrow> world \<Rightarrow> (error + bool) \<times> world" where
  "push_poll_loop self uid aid expires_at w =
     (if expires_at > clock w then
        (if fst (poll_response self uid aid w) = ''pending'' then
           push_poll_loop self uid aid expires_at
             (sleep PUSH_VERIFICATION_POLL_FREQUENCY (after_poll self uid aid w))
         else if fst (poll_response self uid aid w) = ''accepted'' then
           (Inr True, after_poll self uid aid w)
         else if fst (poll_response self uid aid w) = ''rejected'' then
           (Inr False, after_poll self uid aid w)
         else
           (Inl (APIResponseError (''Push verification status not recognized: ''
                   @ fst (poll_response self uid aid w))), after_poll self uid aid w))
      else (Inl (TimeOutError ''Push verification timed out''), w))"
  by pat_completeness auto
termination
  by (relation "measure (\<lambda>(self, uid, aid, expires_at, w). expires_at - clock w)")
     (auto simp: sleep_def after_poll_def record_call_def PUSH_VERIFICATION_POLL_FREQUENCY_def)

declare push_poll_loop.simps [simp del]

definition push_authenticate ::
    "authenticator \<Rightarrow> string \<Rightarrow> int option \<Rightarrow> world \<Rightarrow> (error + bool) \<times> world" where
  "push_authenticate self username factor_id w =
     (case get_user self username w of
        (Inl e, w1) \<Rightarrow> (Inl e, w1)
      | (Inr u, w1) \<Rightarrow>
          (case factor_id_or_default self username factor_id w1 of
             (Inl e, w2) \<Rightarrow> (Inl e, w2)
           | (Inr fid, w2) \<Rightarrow>
               (case activate_factor self (user_id u) fid
                       (Some (int PUSH_VERIFICATION_POLL_TIMEOUT)) w2 of
                  (Inl e, w3) \<Rightarrow> (Inl e, w3)
                | (Inr activation, w3) \<Rightarrow>
                    push_poll_loop self (user_id u) (activation_id activation)
                      (clock w3 + PUSH_VERIFICATION_POLL_TIMEOUT) w3)))"

section \<open>Python conversions used by lib/plugin.py\<close>

text \<open>
  \<open>str(position)\<close> inside the f-string of the prompt, for the non-negative positions
  that \<open>enumerate(..., start=1)\<close> yields: the decimal digits, most significant first.
\<close>

definition digit_char :: "nat \<Rightarrow> char" where
  "digit_char d = ''0123456789'' ! d"

function str_nat :: "nat \<Rightarrow> string" where
  "str_nat n = (if n < 10 then [digit_char n] else str_nat (n div 10) @ [digit_char (n mod 10)])"
  by pat_completeness auto
termination
  by (relation "measure id") auto

declare str_nat.simps [simp del]

text \<open>
  The text that \<open>str_nat\<close> produces, read back as a decimal number.
\<close>

definition decimal_value :: "string \<Rightarrow> nat" where
  "decimal_value s = foldl (\<lambda>acc c. 10 * acc + (of_char c - 48)) 0 s"

text \<open>
  An answer of the user is a Python \<open>str\<close>, kept as the list of its code points, because
  \<open>int(selection)\<close> reads it character by character.  \<open>py_str\<close> gives the \<open>str\<close> of an
  ASCII text.
\<close>

type_synonym unicode = "nat list"

definition py_str :: "string \<Rightarrow> unicode" where
  "py_str s = map of_char s"

text \<open>
  \<open>int(selection)\<close> on a \<open>str\<close>, base 10, as CPython 3.11 computes it (Unicode 14.0, default
  \<open>sys.int_max_str_digits\<close>).  Code points below 127 are taken as they are; above, a Unicode
  white space counts as a blank and a Unicode decimal digit as the ASCII digit of its
  value, and any other character is not part of a number.  Then white space (tab, line
  feed, vertical tab, form feed, carriage return, blank) is skipped at both ends, one
  sign may come first, and the digits follow, where single underscores may stand
  between two digits; more than 4300 digits are refused.  \<open>None\<close> stands for the
  \<open>ValueError\<close> that \<open>int\<close> raises.
\<close>

definition int_max_str_digits :: nat where
  "int_max_str_digits = 4300"

definition ascii_isspace :: "nat \<Rightarrow> bool" where
  "ascii_isspace cp = (cp \<in> set [0x09, 0x0A, 0x0B, 0x0C, 0x0D, 0x20])"

definition unicode_isspace :: "nat \<Rightarrow> bool" where
  "unicode_isspace cp =
     (cp \<in> set [0x85, 0xA0, 0x1680, 0x2000, 0x2001, 0x2002, 0x2003, 0x2004, 0x2005, 0x2006,
                 0x2007, 0x2008, 0x2009, 0x200A, 0x2028, 0x2029, 0x202F, 0x205F, 0x3000])"

text \<open>
  The decimal digits outside ASCII come in runs of ten, zero to nine; these are the code
  points of the zeros.
\<close>

definition decimal_zeros :: "nat list" where
  "decimal_zeros =
     [0x660, 0x6F0, 0x7C0, 0x966, 0x9E6, 0xA66, 0xAE6, 0xB66, 0xBE6, 0xC66, 0xCE6,
      0xD66, 0xDE6, 0xE50, 0xED0, 0xF20, 0x1040, 0x1090, 0x17E0, 0x1810, 0x1946,
      0x19D0, 0x1A80, 0x1A90, 0x1B50, 0x1BB0, 0x1C40, 0x1C50, 0xA620, 0xA8D0, 0xA900,
      0xA9D0, 0xA9F0, 0xAA50, 0xABF0, 0xFF10, 0x104A0, 0x10D30, 0x11066, 0x110F0,
      0x11136, 0x111D0, 0x112F0, 0x11450, 0x114D0, 0x11650, 0x116C0, 0x11730,
      0x118E0, 0x11950, 0x11C50, 0x11D50, 0x11DA0, 0x16A60, 0x16AC0, 0x16B50,
      0x1D7CE, 0x1D7D8, 0x1D7E2, 0x1D7EC, 0x1D7F6, 0x1E140, 0x1E2F0, 0x1E950, 0x1FBF0]"

definition unicode_todecimal :: "nat \<Rightarrow> nat option" where
  "unicode_todecimal cp =
     (case find (\<lambda>zero. zero \<le> cp \<and> cp < zero + 10) decimal_zeros of
        None \<Rightarrow> None
      | Some zero \<Rightarrow> Some (cp - zero))"

definition to_ascii :: "nat \<Rightarrow> nat" where
  "to_ascii cp =
     (if cp < 127 then cp
      else if unicode_isspace cp then 0x20
      else (case unicode_todecimal cp of
              None \<Rightarrow> 0x3F
            | Some d \<Rightarrow> 0x30 + d))"

definition py_strip :: "unicode \<Rightarrow> unicode" where
  "py_strip s = rev (dropWhile ascii_isspace (rev (dropWhile ascii_isspace s)))"

definition is_digit :: "nat \<Rightarrow> bool" where
  "is_digit cp = (0x30 \<le> cp \<and> cp \<le> 0x39)"

definition digit_value :: "nat \<Rightarrow> nat" where
  "digit_value cp = cp - 0x30"

fun parse_digits :: "unicode \<Rightarrow> bool \<Rightarrow> nat \<Rightarrow> nat option" where
  "parse_digits [] prev_underscore acc = (if prev_underscore then None else Some acc)"
| "parse_digits (c # cs) prev_underscore acc =
     (if c = 0x5F then (if prev_underscore then None else parse_digits cs True acc)
      else if is_digit c then parse_digits cs False (acc * 10 + digit_value c)
      else None)"

definition parse_unsigned :: "unicode \<Rightarrow> nat option" where
  "parse_unsigned body =
     (case body of
        [] \<Rightarrow> None
      | d # ds \<Rightarrow>
          if d = 0x5F then None
          else if length (filter (\<lambda>c. c \<noteq> 0x5F) body) > int_max_str_digits then None
          else parse_digits body False 0)"

definition py_int :: "unicode \<Rightarrow> int option" where
  "py_int s =
     (case py_strip (map to_ascii s) of
        [] \<Rightarrow> None
      | c # cs \<Rightarrow>
          if c = 0x2D then map_option (\<lambda>n. - int n) (parse_unsigned cs)
          else if c = 0x2B then map_option int (parse_unsigned cs)
          else map_option int (parse_unsigned (c # cs)))"

section \<open>lib/plugin.py\<close>

datatype aa_response =
    Accept string
  | Deny string
  | NeedInfo string string

text \<open>
  The plugin object of one turn: the configuration, the three cookie properties of the
  session, the connection (protocol and key/value pairs) and the credential of the turn.
  \<open>mfa_question\<close> and \<open>mfa_key\<close> are the prompt and the field name with which the base
  class asks for the credential.
\<close>

record plugin =
  plugin_authenticator :: authenticator
  factor_selection_enabled :: bool
  factor_selection_in_progress :: bool
  enrolled_factors :: "(int \<times> string) list"
  user_selected_factor_id :: "int option"
  protocol :: string
  key_value_pairs :: "string \<rightharpoonup> unicode"
  mfa_identity :: string
  mfa_password :: "string option"
  mfa_question :: string
  mfa_key :: string

definition FACTOR_SELECTION_SUPPORTED_PROTOCOLS :: "string list" where
  "FACTOR_SELECTION_SUPPORTED_PROTOCOLS = [''ssh'', ''telnet'']"

definition factor_selection_supported :: "plugin \<Rightarrow> bool" where
  "factor_selection_supported self = (protocol self \<in> set FACTOR_SELECTION_SUPPORTED_PROTOCOLS)"

text \<open>The \<open>for position, factor in enumerate(self._enrolled_factors, start=1)\<close> loop.\<close>

fun prompt_loop :: "nat \<Rightarrow> (int \<times> string) list \<Rightarrow> string \<Rightarrow> string" where
  "prompt_loop position [] prompt = prompt"
| "prompt_loop position (factor # factors) prompt =
     prompt_loop (Suc position) factors
       (prompt @ str_nat position @ '') '' @ snd factor @ ''\<newline>'')"

definition factor_selection_prompt :: "plugin \<Rightarrow> string" where
  "factor_selection_prompt self = prompt_loop 1 (enrolled_factors self) [] @ ''Select a factor: ''"

text \<open>
  Modelled from the spec: \<open>_ask_mfa_password\<close> belongs to the base class \<open>AAPlugin\<close>, which
  is not among the sources.  The specification says that after a valid selection the
  controller proceeds "to request the MFA credential (emit a need-more-input
  transition)"; the decision is \<open>NeedMoreInput(prompt, inputFieldName)\<close>.
\<close>

definition ask_mfa_password :: "plugin \<Rightarrow> aa_response" where
  "ask_mfa_password self = NeedInfo (mfa_question self) (mfa_key self)"

definition init_factor_selection ::
    "plugin \<Rightarrow> world \<Rightarrow> (error + aa_response) \<times> plugin \<times> world" where
  "init_factor_selection self w =
     (case get_enrolled_factors (plugin_authenticator self) (mfa_identity self) w of
        (Inl e, w1) \<Rightarrow> (Inl e, self, w1)
      | (Inr factors, w1) \<Rightarrow>
          if factors = [] then (Inr (Deny ''No factors found''), self, w1)
          else
            (let self1 = self\<lparr>enrolled_factors :=
                                 map (\<lambda>f. (device_id f, user_display_name f)) factors\<rparr>;
                 self2 = self1\<lparr>factor_selection_in_progress := True\<rparr>
             in (Inr (NeedInfo (factor_selection_prompt self2) ''user_factor_selection''),
                 self2, w1)))"

text \<open>
  The body of the \<open>try\<close> in \<open>_finish_factor_selection\<close>: \<open>dict.get\<close> gives \<open>None\<close> for a
  missing answer and \<open>int(None)\<close> raises \<open>TypeError\<close>; a string that is no number raises
  \<open>ValueError\<close>, as does a non-positive number; a position past the list raises
  \<open>IndexError\<close>.
\<close>

definition selected_factor_id :: "plugin \<Rightarrow> error + int" where
  "selected_factor_id self =
     (case key_value_pairs self ''user_factor_selection'' of
        None \<Rightarrow> Inl TypeError
      | Some selection \<Rightarrow>
          (case py_int selection of
             None \<Rightarrow> Inl ValueError
           | Some n \<Rightarrow>
               (let index = n - 1 in
                if index < 0 then Inl ValueError
                else if nat index < length (enrolled_factors self)
                  then Inr (fst (enrolled_factors self ! nat index))
                else Inl IndexError)))"

definition caught_by_selection :: "error \<Rightarrow> bool" where
  "caught_by_selection e = (e = ValueError \<or> e = TypeError \<or> e = IndexError)"

text \<open>\<open>dict.pop("otp")\<close> without a default raises \<open>KeyError\<close> when the key is missing.\<close>

definition finish_factor_selection :: "plugin \<Rightarrow> (error + aa_response) \<times> plugin" where
  "finish_factor_selection self =
     (let self1 = self\<lparr>factor_selection_in_progress := False\<rparr> in
      case selected_factor_id self1 of
        Inl e \<Rightarrow>
          if caught_by_selection e then (Inr (Deny ''Invalid selection''), self1)
          else (Inl e, self1)
      | Inr fid \<Rightarrow>
          (let self2 = self1\<lparr>user_selected_factor_id := Some fid\<rparr> in
           case key_value_pairs self2 ''otp'' of
             None \<Rightarrow> (Inl (KeyError ''otp''), self2)
           | Some buffered \<Rightarrow>
               (let self3 = self2\<lparr>key_value_pairs := (key_value_pairs self2)(''otp'' := None)\<rparr>
                in (Inr (ask_mfa_password self3), self3))))"

definition run_factor_selection_command ::
    "plugin \<Rightarrow> world \<Rightarrow> (error + aa_response) \<times> plugin \<times> world" where
  "run_factor_selection_command self w =
     (if \<not> factor_selection_enabled self then
        (Inr (Deny ''Factor selection not available''), self, w)
      else if \<not> factor_selection_supported self then
        (Inr (Deny ''Factor selection not supported''), self, w)
      else init_factor_selection self w)"

text \<open>\<open>if self.mfa_password:\<close> holds for a non-empty string; \<open>None\<close> and \<open>""\<close> are falsy.\<close>

fun password_text :: "string option \<Rightarrow> string" where
  "password_text None = []"
| "password_text (Some s) = s"

text \<open>The body of the \<open>try\<close> in \<open>do_authenticate\<close>; \<open>Inl\<close> is an exception leaving it.\<close>

definition do_authenticate_try ::
    "plugin \<Rightarrow> world \<Rightarrow> (error + aa_response) \<times> plugin \<times> world" where
  "do_authenticate_try self w =
     (if factor_selection_in_progress self then
        (case finish_factor_selection self of (r, self1) \<Rightarrow> (r, self1, w))
      else if password_text (mfa_password self) \<noteq> [] then
        (if password_text (mfa_password self) = ''!select'' then
           run_factor_selection_command self w
         else
           (case otp_authenticate (plugin_authenticator self) (mfa_identity self)
                   (password_text (mfa_password self)) (user_selected_factor_id self) w of
              (Inl e, w1) \<Rightarrow> (Inl e, self, w1)
            | (Inr ok, w1) \<Rightarrow>
                if ok then (Inr (Accept ''OTP authentication successful''), self, w1)
                else (Inr (Deny ''OTP authentication failed''), self, w1)))
      else
        (case push_authenticate (plugin_authenticator self) (mfa_identity self)
                (user_selected_factor_id self) w of
           (Inl e, w1) \<Rightarrow> (Inl e, self, w1)
         | (Inr ok, w1) \<Rightarrow>
             if ok then (Inr (Accept ''Push verification successful''), self, w1)
             else (Inr (Deny ''Push verification failed''), self, w1)))"

text \<open>
  \<open>except Exception as e\<close> logs the exception and falls through to the last line, which
  returns the deny with the reason spelled as in the source.
\<close>

definition do_authenticate :: "plugin \<Rightarrow> world \<Rightarrow> aa_response \<times> plugin \<times> world" where
  "do_authenticate self w =
     (case do_authenticate_try self w of
        (Inr response, self1, w1) \<Rightarrow> (response, self1, w1)
      | (Inl e, self1, w1) \<Rightarrow> (Deny ''An error occured'', self1, w1))"

section \<open>A scripted provider for the concrete instances\<close>

definition example_users :: "(string \<times> string) list \<Rightarrow> user list option" where
  "example_users q =
     (if q = [(''username'', ''alice''), (''fields'', ''id'')] then Some [\<lparr>user_id = 42\<rparr>]
      else if q = [(''username'', ''carol''), (''fields'', ''id'')] then Some [\<lparr>user_id = 43\<rparr>]
      else if q = [(''username'', ''frank''), (''fields'', ''id'')] then Some [\<lparr>user_id = 45\<rparr>]
      else if q = [(''username'', ''nobody''), (''fields'', ''id'')] then Some []
      else if q = [(''username'', ''twin''), (''fields'', ''id'')]
        then Some [\<lparr>user_id = 1\<rparr>, \<lparr>user_id = 2\<rparr>]
      else None)"

definition device_a :: otp_device where
  "device_a = \<lparr>device_id = 7, user_display_name = ''Device A'', is_default = False\<rparr>"

definition device_b :: otp_device where
  "device_b = \<lparr>device_id = 9, user_display_name = ''Device B'', is_default = True\<rparr>"

definition example_factors :: "int \<Rightarrow> otp_device list option" where
  "example_factors uid =
     (if uid = 42 then Some [device_a, device_b]
      else if uid = 43 then Some []
      else if uid = 45 then
        Some [\<lparr>device_id = 5, user_display_name = ''Token'', is_default = False\<rparr>]
      else None)"

text \<open>The poll script: \<open>k\<close> times \<open>pending\<close>, then \<open>final\<close>; every poll takes \<open>d\<close>.\<close>

definition scripted :: "nat \<Rightarrow> string \<Rightarrow> nat \<Rightarrow> nat \<Rightarrow> string \<times> nat" where
  "scripted k final d n = (if n < k then (''pending'', d) else (final, d))"

definition example_client :: "(nat \<Rightarrow> string \<times> nat) \<Rightarrow> client" where
  "example_client script =
     \<lparr>client_get_users = example_users,
      client_get_enrolled_factors = example_factors,
      client_verify_factor = (\<lambda>uid fid otp. uid = 42 \<and> fid = 9 \<and> otp = ''123456''),
      client_activate_factor =
        (\<lambda>uid fid expires_in.
           if expires_in = Some 60 then Some \<lparr>activation_id = 1000\<rparr> else None),
      client_verify_factor_poll = (\<lambda>uid aid n. script n),
      client_error_description = ''provider unavailable''\<rparr>"

definition example_authenticator :: "(nat \<Rightarrow> string \<times> nat) \<Rightarrow> authenticator" where
  "example_authenticator script =
     \<lparr>client_of = example_client script, user_attribute = ''username''\<rparr>"

definition start_world :: world where
  "start_world = \<lparr>clock = 100, calls = []\<rparr>"

section \<open>Quantities the properties are stated with\<close>

text \<open>The number of \<open>verify_factor\<close> calls in the log.\<close>

fun is_verify :: "call \<Rightarrow> bool" where
  "is_verify (VerifyFactor u f c) = True"
| "is_verify k = False"

definition verifications_made :: "world \<Rightarrow> nat" where
  "verifications_made w = length (filter is_verify (calls w))"

text \<open>
  The instant at which the \<open>k\<close>-th poll from now would start, and the world after \<open>k\<close>
  rounds of poll and sleep, when every earlier poll answers \<open>pending\<close>.
\<close>

fun poll_start :: "authenticator \<Rightarrow> int \<Rightarrow> int \<Rightarrow> world \<Rightarrow> nat \<Rightarrow> nat" where
  "poll_start self uid aid w 0 = clock w"
| "poll_start self uid aid w (Suc k) =
     poll_start self uid aid w k
       + snd (client_verify_factor_poll (client_of self) uid aid (polls_made w + k))
       + PUSH_VERIFICATION_POLL_FREQUENCY"

fun after_pending :: "authenticator \<Rightarrow> int \<Rightarrow> int \<Rightarrow> nat \<Rightarrow> world \<Rightarrow> world" where
  "after_pending self uid aid 0 w = w"
| "after_pending self uid aid (Suc k) w =
     after_pending self uid aid k (sleep PUSH_VERIFICATION_POLL_FREQUENCY (after_poll self uid aid w))"

text \<open>The three branches of the loop for a status other than \<open>pending\<close>.\<close>

definition poll_outcome :: "string \<Rightarrow> error + bool" where
  "poll_outcome status =
     (if status = ''accepted'' then Inr True
      else if status = ''rejected'' then Inr False
      else Inl (APIResponseError (''Push verification status not recognized: '' @ status)))"

text \<open>
  The prompt as the specification words it: one line \<open>"<position>) <displayName>"\<close> per
  factor, positions counted from 1 in list order, then the selection prompt line.
\<close>

definition enumerated_prompt :: "(int \<times> string) list \<Rightarrow> string" where
  "enumerated_prompt factors =
     concat (map (\<lambda>(position, factor). str_nat position @ '') '' @ snd factor @ ''\<newline>'')
                 (zip [1 ..< Suc (length factors)] factors))
     @ ''Select a factor: ''"

text \<open>A plugin object for the concrete instances.\<close>

definition example_plugin :: "(nat \<Rightarrow> string \<times> nat) \<Rightarrow> plugin" where
  "example_plugin script =
     \<lparr>plugin_authenticator = example_authenticator script,
      factor_selection_enabled = True,
      factor_selection_in_progress = False,
      enrolled_factors = [],
      user_selected_factor_id = None,
      protocol = ''ssh'',
      key_value_pairs = [''otp'' \<mapsto> py_str ''!select''],
      mfa_identity = ''alice'',
      mfa_password = Some ''!select'',
      mfa_question = ''One-time password: '',
      mfa_key = ''otp''\<rparr>"

text \<open>The same plugin in the middle of a selection between the two devices.\<close>

definition selecting_plugin :: "(string \<rightharpoonup> unicode) \<Rightarrow> plugin" where
  "selecting_plugin answers =
     (example_plugin (scripted 0 ''accepted'' 0))
       \<lparr>factor_selection_in_progress := True,
        enrolled_factors := [(7, ''Device A''), (9, ''Device B'')],
        key_value_pairs := answers\<rparr>"

section \<open>Resolving the user and the default factor\<close>

lemmas example_defs = example_authenticator_def example_client_def example_users_def
  example_factors_def device_a_def device_b_def start_world_def query_params_def
  record_call_def

text \<open>
  C4.  \<open>_get_user\<close> fails with \<open>APIResponseError\<close> carrying the client's error description
  when the provider call gives no result, with \<open>UserNotFound\<close> when it gives no user,
  with \<open>APIResponseError\<close> ("More than one user found ...", the ambiguous-user case) when
  it gives more than one, and returns the user when it gives exactly one.
\<close>

theorem get_user_outcomes:
  "(client_get_users (client_of self) (query_params (user_attribute self) username) = None \<longrightarrow>
      fst (get_user self username w) =
        Inl (APIResponseError (client_error_description (client_of self))))
   \<and> (client_get_users (client_of self) (query_params (user_attribute self) username) = Some [] \<longrightarrow>
      fst (get_user self username w) =
        Inl (UserNotFound (''No user found for user: '' @ username
               @ '' based on attribute: '' @ user_attribute self)))
   \<and> (\<forall>users. client_get_users (client_of self) (query_params (user_attribute self) username)
                 = Some users \<and> length users > 1 \<longrightarrow>
      fst (get_user self username w) =
        Inl (APIResponseError (''More than one user found for user: '' @ username
               @ '' based on attribute: '' @ user_attribute self)))
   \<and> (\<forall>u. client_get_users (client_of self) (query_params (user_attribute self) username)
             = Some [u] \<longrightarrow>
      fst (get_user self username w) = Inr u)"
  by (simp add: get_user_def Let_def)

theorem get_user_outcomes_witness:
  "fst (get_user (example_authenticator (scripted 0 ''accepted'' 0)) ''dave'' start_world)
     = Inl (APIResponseError ''provider unavailable'')
   \<and> fst (get_user (example_authenticator (scripted 0 ''accepted'' 0)) ''nobody'' start_world)
     = Inl (UserNotFound ''No user found for user: nobody based on attribute: username'')
   \<and> fst (get_user (example_authenticator (scripted 0 ''accepted'' 0)) ''twin'' start_world)
     = Inl (APIResponseError
              ''More than one user found for user: twin based on attribute: username'')
   \<and> fst (get_user (example_authenticator (scripted 0 ''accepted'' 0)) ''alice'' start_world)
     = Inr \<lparr>user_id = 42\<rparr>"
  using get_user_outcomes [of "example_authenticator (scripted 0 ''accepted'' 0)" "''dave''" start_world]
        get_user_outcomes [of "example_authenticator (scripted 0 ''accepted'' 0)" "''nobody''" start_world]
        get_user_outcomes [of "example_authenticator (scripted 0 ''accepted'' 0)" "''twin''" start_world]
        get_user_outcomes [of "example_authenticator (scripted 0 ''accepted'' 0)" "''alice''" start_world]
  by (simp add: example_defs)

lemma next_default_first:
  "\<forall>g\<in>set pre. \<not> is_default g \<Longrightarrow> is_default f \<Longrightarrow> next_default (pre @ f # post) = Some f"
  by (induction pre) auto

lemma next_default_none: "\<forall>g\<in>set factors. \<not> is_default g \<Longrightarrow> next_default factors = None"
  by (induction factors) auto

text \<open>
  C6.  Given the user's enrolled factors, \<open>_get_default_factor\<close> returns the first entry
  whose default flag is set (every entry before it is not a default), and fails with
  \<open>FactorNotFound\<close> when no entry is a default, the empty list included.
\<close>

theorem default_factor_first_or_not_found:
  assumes "get_enrolled_factors self username w = (Inr factors, w1)"
  shows "(\<forall>pre f post. factors = pre @ f # post \<and> (\<forall>g\<in>set pre. \<not> is_default g) \<and> is_default f \<longrightarrow>
            get_default_factor self username w = (Inr f, w1))
       \<and> ((\<forall>g\<in>set factors. \<not> is_default g) \<longrightarrow>
            get_default_factor self username w
              = (Inl (FactorNotFound ''No default MFA factor found''), w1))"
  using assms by (auto simp: get_default_factor_def next_default_first next_default_none)

theorem default_factor_first_or_not_found_witness:
  "fst (get_default_factor (example_authenticator (scripted 0 ''accepted'' 0)) ''alice'' start_world)
     = Inr device_b
   \<and> fst (get_default_factor (example_authenticator (scripted 0 ''accepted'' 0)) ''frank'' start_world)
     = Inl (FactorNotFound ''No default MFA factor found'')
   \<and> fst (get_default_factor (example_authenticator (scripted 0 ''accepted'' 0)) ''carol'' start_world)
     = Inl (FactorNotFound ''No default MFA factor found'')"
proof -
  let ?a = "example_authenticator (scripted 0 ''accepted'' 0)"
  have alice: "get_enrolled_factors ?a ''alice'' start_world
                 = (Inr ([device_a] @ device_b # []), snd (get_enrolled_factors ?a ''alice'' start_world))"
    by (simp add: get_enrolled_factors_def get_user_def example_defs)
  have frank: "get_enrolled_factors ?a ''frank'' start_world
                 = (Inr [\<lparr>device_id = 5, user_display_name = ''Token'', is_default = False\<rparr>],
                    snd (get_enrolled_factors ?a ''frank'' start_world))"
    by (simp add: get_enrolled_factors_def get_user_def example_defs)
  have carol: "get_enrolled_factors ?a ''carol'' start_world
                 = (Inr [], snd (get_enrolled_factors ?a ''carol'' start_world))"
    by (simp add: get_enrolled_factors_def get_user_def example_defs)
  have "get_default_factor ?a ''alice'' start_world
          = (Inr device_b, snd (get_enrolled_factors ?a ''alice'' start_world))"
    using default_factor_first_or_not_found
            [OF alice, THEN conjunct1, rule_format, of "[device_a]" device_b "[]"]
    by (simp add: device_a_def device_b_def)
  moreover have "get_default_factor ?a ''frank'' start_world
          = (Inl (FactorNotFound ''No default MFA factor found''),
             snd (get_enrolled_factors ?a ''frank'' start_world))"
    using default_factor_first_or_not_found [OF frank] by simp
  moreover have "get_default_factor ?a ''carol'' start_world
          = (Inl (FactorNotFound ''No default MFA factor found''),
             snd (get_enrolled_factors ?a ''carol'' start_world))"
    using default_factor_first_or_not_found [OF carol] by simp
  ultimately show ?thesis by simp
qed

section \<open>OTP verification\<close>

lemma get_user_verifications:
  "verifications_made (snd (get_user self username w)) = verifications_made w"
  by (simp add: get_user_def Let_def verifications_made_def record_call_def split: option.splits)

lemma get_enrolled_factors_verifications:
  "verifications_made (snd (get_enrolled_factors self username w)) = verifications_made w"
  using get_user_verifications [of self username w]
  by (auto simp: get_enrolled_factors_def Let_def verifications_made_def record_call_def
           split: option.splits prod.splits sum.splits)

lemma get_default_factor_verifications:
  "verifications_made (snd (get_default_factor self username w)) = verifications_made w"
  using get_enrolled_factors_verifications [of self username w]
  by (auto simp: get_default_factor_def split: option.splits prod.splits sum.splits)

lemma factor_id_or_default_verifications:
  "verifications_made (snd (factor_id_or_default self username factor_id w)) = verifications_made w"
  using get_default_factor_verifications [of self username w]
  by (cases factor_id) (auto split: prod.splits sum.splits)

text \<open>
  C7.  Once the user is resolved and the factor id is settled (the supplied id, or the
  id of the user's default factor when none is supplied), \<open>otp_authenticate\<close> returns
  exactly what the client's \<open>verify_factor\<close> answers for the user id, that factor id and
  the code, true or false, and the run has made exactly one \<open>verify_factor\<close> call: a
  false answer is not retried.
\<close>

theorem otp_authenticate_reports_client_answer:
  assumes user: "get_user self username w = (Inr u, w1)"
      and factor: "factor_id_or_default self username factor_id w1 = (Inr fid, w2)"
  shows "otp_authenticate self username otp factor_id w
           = (Inr (client_verify_factor (client_of self) (user_id u) fid otp),
              record_call (VerifyFactor (user_id u) fid otp) w2)
       \<and> verifications_made (snd (otp_authenticate self username otp factor_id w))
           = Suc (verifications_made w)
       \<and> (\<forall>f. factor_id = Some f \<and> f \<noteq> 0 \<longrightarrow> fid = f)
       \<and> (factor_id = None \<longrightarrow>
            (\<exists>d. get_default_factor self username w1 = (Inr d, w2) \<and> fid = device_id d))"
proof (intro conjI allI impI)
  show run: "otp_authenticate self username otp factor_id w
      = (Inr (client_verify_factor (client_of self) (user_id u) fid otp),
         record_call (VerifyFactor (user_id u) fid otp) w2)"
    using user factor by (simp add: otp_authenticate_def)
  have "verifications_made w1 = verifications_made w"
    using get_user_verifications [of self username w] user by simp
  moreover have "verifications_made w2 = verifications_made w1"
    using factor_id_or_default_verifications [of self username factor_id w1] factor by simp
  ultimately show "verifications_made (snd (otp_authenticate self username otp factor_id w))
      = Suc (verifications_made w)"
    using run by (simp add: verifications_made_def record_call_def)
next
  fix f assume "factor_id = Some f \<and> f \<noteq> 0"
  with factor show "fid = f" by simp
next
  assume "factor_id = None"
  with factor show "\<exists>d. get_default_factor self username w1 = (Inr d, w2) \<and> fid = device_id d"
    by (auto split: prod.splits sum.splits)
qed

theorem otp_authenticate_reports_client_answer_witness:
  "otp_authenticate (example_authenticator (scripted 0 ''accepted'' 0)) ''alice'' ''123456'' (Some 9) start_world
     = (Inr True, \<lparr>clock = 100, calls = [GetUsers [(''username'', ''alice''), (''fields'', ''id'')],
                                          VerifyFactor 42 9 ''123456'']\<rparr>)
   \<and> otp_authenticate (example_authenticator (scripted 0 ''accepted'' 0)) ''alice'' ''000000'' None start_world
     = (Inr False, \<lparr>clock = 100, calls = [GetUsers [(''username'', ''alice''), (''fields'', ''id'')],
                                           GetUsers [(''username'', ''alice''), (''fields'', ''id'')],
                                           GetEnrolledFactors 42,
                                           VerifyFactor 42 9 ''000000'']\<rparr>)
   \<and> verifications_made (snd (otp_authenticate (example_authenticator (scripted 0 ''accepted'' 0))
                                  ''alice'' ''000000'' None start_world)) = 1"
proof -
  let ?a = "example_authenticator (scripted 0 ''accepted'' 0)"
  let ?w1 = "\<lparr>clock = 100, calls = [GetUsers [(''username'', ''alice''), (''fields'', ''id'')]]\<rparr>"
  let ?w2 = "\<lparr>clock = 100, calls = [GetUsers [(''username'', ''alice''), (''fields'', ''id'')],
                                     GetUsers [(''username'', ''alice''), (''fields'', ''id'')],
                                     GetEnrolledFactors 42]\<rparr>"
  have u: "get_user ?a ''alice'' start_world = (Inr \<lparr>user_id = 42\<rparr>, ?w1)"
    by (simp add: get_user_def example_defs)
  have given: "factor_id_or_default ?a ''alice'' (Some 9) ?w1 = (Inr 9, ?w1)"
    by simp
  have default: "factor_id_or_default ?a ''alice'' None ?w1 = (Inr 9, ?w2)"
    by (simp add: get_default_factor_def get_enrolled_factors_def get_user_def example_defs)
  show ?thesis
    using otp_authenticate_reports_client_answer [OF u given, of "''123456''"]
          otp_authenticate_reports_client_answer [OF u default, of "''000000''"]
    by (simp add: example_defs verifications_made_def)
qed

section \<open>Push verification\<close>

lemma polls_made_round [simp]:
  "polls_made (sleep n (after_poll self uid aid w)) = Suc (polls_made w)"
  by (simp add: polls_made_def sleep_def after_poll_def record_call_def)

lemma polls_made_after_poll [simp]: "polls_made (after_poll self uid aid w) = Suc (polls_made w)"
  by (simp add: polls_made_def after_poll_def record_call_def)

lemma clock_round [simp]:
  "clock (sleep n (after_poll self uid aid w))
     = clock w + snd (client_verify_factor_poll (client_of self) uid aid (polls_made w)) + n"
  by (simp add: sleep_def after_poll_def record_call_def poll_response_def)

lemma poll_start_round:
  "poll_start self uid aid (sleep PUSH_VERIFICATION_POLL_FREQUENCY (after_poll self uid aid w)) k
     = poll_start self uid aid w (Suc k)"
  by (induction k) simp_all

lemma clock_le_poll_start: "clock w \<le> poll_start self uid aid w k"
  by (induction k) simp_all

lemma polls_made_after_pending [simp]:
  "polls_made (after_pending self uid aid k w) = polls_made w + k"
  by (induction k arbitrary: w) simp_all

lemma calls_round:
  "calls (sleep n (after_poll self uid aid w)) = calls w @ [VerifyFactorPoll uid aid]"
  by (simp add: sleep_def after_poll_def record_call_def)

lemma calls_after_poll: "calls (after_poll self uid aid w) = calls w @ [VerifyFactorPoll uid aid]"
  by (simp add: after_poll_def record_call_def)

lemma poll_start_sum:
  "poll_start self uid aid w k
     = clock w + (\<Sum>j<k. snd (client_verify_factor_poll (client_of self) uid aid (polls_made w + j))
                          + PUSH_VERIFICATION_POLL_FREQUENCY)"
  by (induction k) simp_all

lemma push_poll_loop_decided:
  assumes "\<forall>j<k. fst (client_verify_factor_poll (client_of self) uid aid (polls_made w + j)) = ''pending''"
      and "poll_start self uid aid w k < expires_at"
      and "fst (client_verify_factor_poll (client_of self) uid aid (polls_made w + k)) \<noteq> ''pending''"
  shows "push_poll_loop self uid aid expires_at w
           = (poll_outcome (fst (client_verify_factor_poll (client_of self) uid aid (polls_made w + k))),
              after_poll self uid aid (after_pending self uid aid k w))"
  using assms
proof (induction k arbitrary: w)
  case 0
  then show ?case
    by (simp add: push_poll_loop.simps [of self uid aid expires_at w] poll_response_def poll_outcome_def)
next
  case (Suc k)
  let ?w' = "sleep PUSH_VERIFICATION_POLL_FREQUENCY (after_poll self uid aid w)"
  have now: "clock w < expires_at"
    using clock_le_poll_start [of w self uid aid "Suc k"] Suc.prems(2) by simp
  have first: "fst (poll_response self uid aid w) = ''pending''"
    using Suc.prems(1) [rule_format, of 0] by (simp add: poll_response_def)
  have step: "push_poll_loop self uid aid expires_at w = push_poll_loop self uid aid expires_at ?w'"
    using now first by (simp add: push_poll_loop.simps [of self uid aid expires_at w])
  have p: "\<forall>j<k. fst (client_verify_factor_poll (client_of self) uid aid (polls_made ?w' + j)) = ''pending''"
    using Suc.prems(1) by auto
  have s: "poll_start self uid aid ?w' k < expires_at"
    using Suc.prems(2) by (simp only: poll_start_round)
  have d: "fst (client_verify_factor_poll (client_of self) uid aid (polls_made ?w' + k)) \<noteq> ''pending''"
    using Suc.prems(3) by simp
  show ?case
    using Suc.IH [OF p s d] step by simp
qed

lemma push_poll_loop_timeout:
  assumes "\<forall>j<k. fst (client_verify_factor_poll (client_of self) uid aid (polls_made w + j)) = ''pending''"
      and "expires_at \<le> poll_start self uid aid w k"
  shows "fst (push_poll_loop self uid aid expires_at w) = Inl (TimeOutError ''Push verification timed out'')"
  using assms
proof (induction k arbitrary: w)
  case 0
  then show ?case
    by (simp add: push_poll_loop.simps [of self uid aid expires_at w])
next
  case (Suc k)
  let ?w' = "sleep PUSH_VERIFICATION_POLL_FREQUENCY (after_poll self uid aid w)"
  show ?case
  proof (cases "clock w < expires_at")
    case False
    then show ?thesis
      by (simp add: push_poll_loop.simps [of self uid aid expires_at w])
  next
    case True
    have first: "fst (poll_response self uid aid w) = ''pending''"
      using Suc.prems(1) [rule_format, of 0] by (simp add: poll_response_def)
    have step: "push_poll_loop self uid aid expires_at w = push_poll_loop self uid aid expires_at ?w'"
      using True first by (simp add: push_poll_loop.simps [of self uid aid expires_at w])
    have p: "\<forall>j<k. fst (client_verify_factor_poll (client_of self) uid aid (polls_made ?w' + j)) = ''pending''"
      using Suc.prems(1) by auto
    have s: "expires_at \<le> poll_start self uid aid ?w' k"
      using Suc.prems(2) by (simp only: poll_start_round)
    show ?thesis
      using Suc.IH [OF p s] step by simp
  qed
qed

lemma push_poll_loop_keeps_calls:
  "\<exists>tail. calls (snd (push_poll_loop self uid aid expires_at w)) = calls w @ tail"
proof (induction self uid aid expires_at w rule: push_poll_loop.induct)
  case (1 self uid aid expires_at w)
  show ?case
  proof (cases "clock w < expires_at \<and> fst (poll_response self uid aid w) = ''pending''")
    case True
    then obtain tail where
      "calls (snd (push_poll_loop self uid aid expires_at
                    (sleep PUSH_VERIFICATION_POLL_FREQUENCY (after_poll self uid aid w))))
         = calls (sleep PUSH_VERIFICATION_POLL_FREQUENCY (after_poll self uid aid w)) @ tail"
      using "1.IH" by auto
    with True show ?thesis
      by (simp add: push_poll_loop.simps [of self uid aid expires_at w] calls_round)
  next
    case False
    then show ?thesis
      by (auto simp: push_poll_loop.simps [of self uid aid expires_at w] calls_after_poll)
  qed
qed

lemma get_user_polls: "polls_made (snd (get_user self username w)) = polls_made w"
  by (simp add: get_user_def Let_def polls_made_def record_call_def split: option.splits)

lemma get_enrolled_factors_polls:
  "polls_made (snd (get_enrolled_factors self username w)) = polls_made w"
  using get_user_polls [of self username w]
  by (auto simp: get_enrolled_factors_def Let_def polls_made_def record_call_def
           split: option.splits prod.splits sum.splits)

lemma get_default_factor_polls:
  "polls_made (snd (get_default_factor self username w)) = polls_made w"
  using get_enrolled_factors_polls [of self username w]
  by (auto simp: get_default_factor_def split: option.splits prod.splits sum.splits)

lemma factor_id_or_default_polls:
  "polls_made (snd (factor_id_or_default self username factor_id w)) = polls_made w"
  using get_default_factor_polls [of self username w]
  by (cases factor_id) (auto split: prod.splits sum.splits)

lemma push_authenticate_resolved:
  assumes "get_user self username w = (Inr u, w1)"
      and "factor_id_or_default self username factor_id w1 = (Inr fid, w2)"
  shows "push_authenticate self username factor_id w =
           (case client_activate_factor (client_of self) (user_id u) fid
                   (Some (int PUSH_VERIFICATION_POLL_TIMEOUT)) of
              None \<Rightarrow> (Inl (APIResponseError (client_error_description (client_of self))),
                        record_call (ActivateFactor (user_id u) fid
                                       (Some (int PUSH_VERIFICATION_POLL_TIMEOUT))) w2)
            | Some activation \<Rightarrow>
                push_poll_loop self (user_id u) (activation_id activation)
                  (clock w2 + PUSH_VERIFICATION_POLL_TIMEOUT)
                  (record_call (ActivateFactor (user_id u) fid
                                  (Some (int PUSH_VERIFICATION_POLL_TIMEOUT))) w2))"
  using assms
  by (simp add: push_authenticate_def activate_factor_def Let_def record_call_def split: option.splits)

lemma push_authenticate_logs_activation:
  assumes "get_user self username w = (Inr u, w1)"
      and "factor_id_or_default self username factor_id w1 = (Inr fid, w2)"
  shows "ActivateFactor (user_id u) fid (Some (int PUSH_VERIFICATION_POLL_TIMEOUT))
           \<in> set (calls (snd (push_authenticate self username factor_id w)))"
proof (cases "client_activate_factor (client_of self) (user_id u) fid
                (Some (int PUSH_VERIFICATION_POLL_TIMEOUT))")
  case None
  then show ?thesis
    using push_authenticate_resolved [OF assms] by (simp add: record_call_def)
next
  case (Some activation)
  let ?w3 = "record_call (ActivateFactor (user_id u) fid
                            (Some (int PUSH_VERIFICATION_POLL_TIMEOUT))) w2"
  obtain tail where
    "calls (snd (push_poll_loop self (user_id u) (activation_id activation)
                   (clock w2 + PUSH_VERIFICATION_POLL_TIMEOUT) ?w3)) = calls ?w3 @ tail"
    using push_poll_loop_keeps_calls by blast
  then show ?thesis
    using push_authenticate_resolved [OF assms] Some by (simp add: record_call_def)
qed

text \<open>
  C2.  Once the user and the factor are resolved and the provider has started the
  activation, \<open>push_authenticate\<close> has asked for that activation with an expiry equal to
  the poll timeout, and polls.  Let the first \<open>k\<close> polls answer \<open>pending\<close>, let \<open>status\<close> be
  the answer of the next one, and let \<open>elapsed\<close> be the time the \<open>k\<close> pending rounds take
  (each poll's duration plus the poll interval).  If \<open>elapsed\<close> is below the timeout, the
  next poll is made and decides: \<open>accepted\<close> returns true, \<open>rejected\<close> returns false (after
  \<open>k + 1\<close> polls in all, so one poll when rejected at once), any other status fails with
  \<open>APIResponseError\<close>.  If \<open>elapsed\<close> has reached the timeout, the deadline has passed with
  every answer \<open>pending\<close> and the call fails with \<open>TimeOutError\<close>.
\<close>

theorem push_authenticate_outcomes:
  assumes user: "get_user self username w = (Inr u, w1)"
      and factor: "factor_id_or_default self username factor_id w1 = (Inr fid, w2)"
      and activation:
        "client_activate_factor (client_of self) (user_id u) fid
           (Some (int PUSH_VERIFICATION_POLL_TIMEOUT)) = Some activation"
      and pending:
        "\<forall>j<k. fst (client_verify_factor_poll (client_of self) (user_id u)
                       (activation_id activation) (polls_made w + j)) = ''pending''"
      and status:
        "status = fst (client_verify_factor_poll (client_of self) (user_id u)
                         (activation_id activation) (polls_made w + k))"
      and elapsed:
        "elapsed = (\<Sum>j<k. snd (client_verify_factor_poll (client_of self) (user_id u)
                                   (activation_id activation) (polls_made w + j))
                             + PUSH_VERIFICATION_POLL_FREQUENCY)"
  shows "ActivateFactor (user_id u) fid (Some (int PUSH_VERIFICATION_POLL_TIMEOUT))
           \<in> set (calls (snd (push_authenticate self username factor_id w)))
       \<and> (elapsed < PUSH_VERIFICATION_POLL_TIMEOUT \<and> status = ''accepted'' \<longrightarrow>
            fst (push_authenticate self username factor_id w) = Inr True
            \<and> polls_made (snd (push_authenticate self username factor_id w)) = polls_made w + Suc k)
       \<and> (elapsed < PUSH_VERIFICATION_POLL_TIMEOUT \<and> status = ''rejected'' \<longrightarrow>
            fst (push_authenticate self username factor_id w) = Inr False
            \<and> polls_made (snd (push_authenticate self username factor_id w)) = polls_made w + Suc k)
       \<and> (elapsed < PUSH_VERIFICATION_POLL_TIMEOUT
            \<and> status \<noteq> ''pending'' \<and> status \<noteq> ''accepted'' \<and> status \<noteq> ''rejected'' \<longrightarrow>
            fst (push_authenticate self username factor_id w)
              = Inl (APIResponseError (''Push verification status not recognized: '' @ status)))
       \<and> (PUSH_VERIFICATION_POLL_TIMEOUT \<le> elapsed \<longrightarrow>
            fst (push_authenticate self username factor_id w)
              = Inl (TimeOutError ''Push verification timed out''))"
proof -
  let ?uid = "user_id u" and ?aid = "activation_id activation"
  let ?w3 = "record_call (ActivateFactor ?uid fid (Some (int PUSH_VERIFICATION_POLL_TIMEOUT))) w2"
  let ?deadline = "clock ?w3 + PUSH_VERIFICATION_POLL_TIMEOUT"
  have run: "push_authenticate self username factor_id w
               = push_poll_loop self ?uid ?aid ?deadline ?w3"
    using push_authenticate_resolved [OF user factor] activation by (simp add: record_call_def)
  have "polls_made w1 = polls_made w"
    using get_user_polls [of self username w] user by simp
  moreover have "polls_made w2 = polls_made w1"
    using factor_id_or_default_polls [of self username factor_id w1] factor by simp
  ultimately have polls: "polls_made ?w3 = polls_made w"
    by (simp add: polls_made_def record_call_def)
  have start: "poll_start self ?uid ?aid ?w3 k = clock ?w3 + elapsed"
    by (simp only: poll_start_sum polls elapsed)
  have pending': "\<forall>j<k. fst (client_verify_factor_poll (client_of self) ?uid ?aid
                                (polls_made ?w3 + j)) = ''pending''"
    using pending by (simp only: polls)
  have decided: "push_authenticate self username factor_id w
                   = (poll_outcome status, after_poll self ?uid ?aid (after_pending self ?uid ?aid k ?w3))"
    if "elapsed < PUSH_VERIFICATION_POLL_TIMEOUT" and "status \<noteq> ''pending''"
  proof -
    have s: "poll_start self ?uid ?aid ?w3 k < ?deadline"
      using that(1) start by simp
    have d: "fst (client_verify_factor_poll (client_of self) ?uid ?aid (polls_made ?w3 + k)) \<noteq> ''pending''"
      using that(2) status by (simp add: polls)
    show ?thesis
      using push_poll_loop_decided [OF pending' s d] run status by (simp add: polls)
  qed
  have count: "polls_made (after_poll self ?uid ?aid (after_pending self ?uid ?aid k ?w3))
                 = polls_made w + Suc k"
    using polls by simp
  have timeout: "fst (push_authenticate self username factor_id w)
                   = Inl (TimeOutError ''Push verification timed out'')"
    if "PUSH_VERIFICATION_POLL_TIMEOUT \<le> elapsed"
  proof -
    have "?deadline \<le> poll_start self ?uid ?aid ?w3 k"
      using that start by simp
    from push_poll_loop_timeout [OF pending' this] run show ?thesis by simp
  qed
  show ?thesis
    using push_authenticate_logs_activation [OF user factor] decided count timeout
    by (simp add: poll_outcome_def)
qed

theorem push_authenticate_outcomes_witness:
  "fst (push_authenticate (example_authenticator (scripted 2 ''accepted'' 1)) ''alice'' (Some 9) start_world)
     = Inr True
   \<and> polls_made (snd (push_authenticate (example_authenticator (scripted 2 ''accepted'' 1))
                        ''alice'' (Some 9) start_world)) = 3
   \<and> fst (push_authenticate (example_authenticator (scripted 0 ''rejected'' 0)) ''alice'' (Some 9) start_world)
     = Inr False
   \<and> polls_made (snd (push_authenticate (example_authenticator (scripted 0 ''rejected'' 0))
                        ''alice'' (Some 9) start_world)) = 1
   \<and> ActivateFactor 42 9 (Some 60)
       \<in> set (calls (snd (push_authenticate (example_authenticator (scripted 0 ''rejected'' 0))
                             ''alice'' (Some 9) start_world)))
   \<and> fst (push_authenticate (example_authenticator (scripted 1 ''expired'' 0)) ''alice'' (Some 9) start_world)
     = Inl (APIResponseError ''Push verification status not recognized: expired'')
   \<and> fst (push_authenticate (example_authenticator (scripted 100 ''accepted'' 7)) ''alice'' (Some 9) start_world)
     = Inl (TimeOutError ''Push verification timed out'')"
proof -
  let ?w1 = "\<lparr>clock = 100, calls = [GetUsers [(''username'', ''alice''), (''fields'', ''id'')]]\<rparr>"
  have u: "get_user (example_authenticator s) ''alice'' start_world = (Inr \<lparr>user_id = 42\<rparr>, ?w1)" for s
    by (simp add: get_user_def example_defs)
  have f: "factor_id_or_default (example_authenticator s) ''alice'' (Some 9) ?w1 = (Inr 9, ?w1)" for s
    by simp
  have a: "client_activate_factor (client_of (example_authenticator s)) (user_id \<lparr>user_id = 42\<rparr>) 9
             (Some (int PUSH_VERIFICATION_POLL_TIMEOUT)) = Some \<lparr>activation_id = 1000\<rparr>" for s
    by (simp add: example_defs PUSH_VERIFICATION_POLL_TIMEOUT_def)
  have p: "\<forall>j<k. fst (client_verify_factor_poll (client_of (example_authenticator (scripted n final d)))
                         (user_id \<lparr>user_id = 42\<rparr>) (activation_id \<lparr>activation_id = 1000\<rparr>)
                         (polls_made start_world + j)) = ''pending''"
    if "k \<le> n" for k n final d
    using that by (simp add: example_defs scripted_def polls_made_def)
  note accepted = push_authenticate_outcomes [OF u f a p [of 2 2 "''accepted''" 1] refl refl]
  note rejected = push_authenticate_outcomes [OF u f a p [of 0 0 "''rejected''" 0] refl refl]
  note unknown = push_authenticate_outcomes [OF u f a p [of 1 1 "''expired''" 0] refl refl]
  note timeout = push_authenticate_outcomes [OF u f a p [of 5 100 "''accepted''" 7] refl refl]
  have "fst (push_authenticate (example_authenticator (scripted 2 ''accepted'' 1)) ''alice'' (Some 9) start_world)
          = Inr True
        \<and> polls_made (snd (push_authenticate (example_authenticator (scripted 2 ''accepted'' 1))
                        ''alice'' (Some 9) start_world)) = 3"
    using accepted
    by (simp add: example_defs scripted_def polls_made_def PUSH_VERIFICATION_POLL_TIMEOUT_def
                  PUSH_VERIFICATION_POLL_FREQUENCY_def)
  moreover have "fst (push_authenticate (example_authenticator (scripted 0 ''rejected'' 0)) ''alice'' (Some 9) start_world)
          = Inr False
        \<and> polls_made (snd (push_authenticate (example_authenticator (scripted 0 ''rejected'' 0))
                        ''alice'' (Some 9) start_world)) = 1
        \<and> ActivateFactor 42 9 (Some 60)
            \<in> set (calls (snd (push_authenticate (example_authenticator (scripted 0 ''rejected'' 0))
                             ''alice'' (Some 9) start_world)))"
    using rejected
    by (simp add: example_defs scripted_def polls_made_def PUSH_VERIFICATION_POLL_TIMEOUT_def
                  PUSH_VERIFICATION_POLL_FREQUENCY_def)
  moreover have "fst (push_authenticate (example_authenticator (scripted 1 ''expired'' 0)) ''alice'' (Some 9) start_world)
          = Inl (APIResponseError ''Push verification status not recognized: expired'')"
    using unknown
    by (simp add: example_defs scripted_def polls_made_def PUSH_VERIFICATION_POLL_TIMEOUT_def
                  PUSH_VERIFICATION_POLL_FREQUENCY_def)
  moreover have "fst (push_authenticate (example_authenticator (scripted 100 ''accepted'' 7)) ''alice'' (Some 9) start_world)
          = Inl (TimeOutError ''Push verification timed out'')"
    using timeout
    by (simp add: example_defs scripted_def polls_made_def PUSH_VERIFICATION_POLL_TIMEOUT_def
                  PUSH_VERIFICATION_POLL_FREQUENCY_def)
  ultimately show ?thesis by simp
qed

section \<open>A factor id of zero\<close>

text \<open>
  C9.  For \<open>otp_authenticate\<close> and for \<open>push_authenticate\<close>, a supplied factor id 0 behaves
  as an absent one: the run is the same as with no factor id, and when the user and the
  default factor resolve, the code is verified, or the activation started, for the
  default factor's id and not for factor 0.
\<close>

theorem zero_factor_id_uses_default:
  "otp_authenticate self username otp (Some 0) w = otp_authenticate self username otp None w
   \<and> push_authenticate self username (Some 0) w = push_authenticate self username None w
   \<and> (\<forall>u w1 d w2. get_user self username w = (Inr u, w1)
          \<and> get_default_factor self username w1 = (Inr d, w2) \<longrightarrow>
        otp_authenticate self username otp (Some 0) w
          = (Inr (client_verify_factor (client_of self) (user_id u) (device_id d) otp),
             record_call (VerifyFactor (user_id u) (device_id d) otp) w2)
        \<and> ActivateFactor (user_id u) (device_id d) (Some (int PUSH_VERIFICATION_POLL_TIMEOUT))
            \<in> set (calls (snd (push_authenticate self username (Some 0) w))))"
proof (intro conjI allI impI)
  show "otp_authenticate self username otp (Some 0) w = otp_authenticate self username otp None w"
    by (simp add: otp_authenticate_def split: prod.splits sum.splits)
  show "push_authenticate self username (Some 0) w = push_authenticate self username None w"
    by (simp add: push_authenticate_def split: prod.splits sum.splits)
next
  fix u w1 d w2
  assume h: "get_user self username w = (Inr u, w1)
               \<and> get_default_factor self username w1 = (Inr d, w2)"
  then show "otp_authenticate self username otp (Some 0) w
      = (Inr (client_verify_factor (client_of self) (user_id u) (device_id d) otp),
         record_call (VerifyFactor (user_id u) (device_id d) otp) w2)"
    by (simp add: otp_authenticate_def)
  from h have f: "factor_id_or_default self username (Some 0) w1 = (Inr (device_id d), w2)"
    by simp
  from h have u: "get_user self username w = (Inr u, w1)" by simp
  show "ActivateFactor (user_id u) (device_id d) (Some (int PUSH_VERIFICATION_POLL_TIMEOUT))
            \<in> set (calls (snd (push_authenticate self username (Some 0) w)))"
    using push_authenticate_logs_activation [OF u f] .
qed

theorem zero_factor_id_uses_default_witness:
  "otp_authenticate (example_authenticator (scripted 0 ''accepted'' 0)) ''alice'' ''123456'' (Some 0) start_world
     = (Inr True, \<lparr>clock = 100, calls = [GetUsers [(''username'', ''alice''), (''fields'', ''id'')],
                                          GetUsers [(''username'', ''alice''), (''fields'', ''id'')],
                                          GetEnrolledFactors 42,
                                          VerifyFactor 42 9 ''123456'']\<rparr>)
   \<and> ActivateFactor 42 9 (Some 60)
        \<in> set (calls (snd (push_authenticate (example_authenticator (scripted 0 ''accepted'' 0))
                              ''alice'' (Some 0) start_world)))"
proof -
  let ?a = "example_authenticator (scripted 0 ''accepted'' 0)"
  let ?w1 = "\<lparr>clock = 100, calls = [GetUsers [(''username'', ''alice''), (''fields'', ''id'')]]\<rparr>"
  let ?w2 = "\<lparr>clock = 100, calls = [GetUsers [(''username'', ''alice''), (''fields'', ''id'')],
                                     GetUsers [(''username'', ''alice''), (''fields'', ''id'')],
                                     GetEnrolledFactors 42]\<rparr>"
  have h: "get_user ?a ''alice'' start_world = (Inr \<lparr>user_id = 42\<rparr>, ?w1)
             \<and> get_default_factor ?a ''alice'' ?w1 = (Inr device_b, ?w2)"
    by (simp add: get_default_factor_def get_enrolled_factors_def get_user_def example_defs)
  show ?thesis
    using zero_factor_id_uses_default [of ?a "''alice''" "''123456''" start_world,
            THEN conjunct2, THEN conjunct2, rule_format, OF h]
    by (simp add: example_defs PUSH_VERIFICATION_POLL_TIMEOUT_def)
qed

section \<open>The factor-selection command and its prompt\<close>

lemma prompt_loop_lines:
  "prompt_loop n factors prompt
     = prompt @ concat (map (\<lambda>(position, factor). str_nat position @ '') '' @ snd factor @ ''\<newline>'')
                            (zip [n ..< n + length factors] factors))"
proof (induction factors arbitrary: n prompt)
  case Nil
  then show ?case by simp
next
  case (Cons factor factors)
  have "[n ..< n + length (factor # factors)] = n # [Suc n ..< Suc n + length factors]"
    by (subst upt_rec) simp
  then show ?case
    using Cons.IH [of "Suc n"] by simp
qed

lemma digit_char_code: "\<forall>d<10. (of_char (digit_char d) :: nat) = 48 + d"
  by (simp add: digit_char_def All_less_Suc eval_nat_numeral)

lemma decimal_value_snoc:
  "decimal_value (s @ [c]) = 10 * decimal_value s + (of_char c - 48)"
  by (simp add: decimal_value_def)

lemma str_nat_decimal:
  "decimal_value (str_nat n) = n \<and> str_nat n \<noteq> []
   \<and> (\<forall>c\<in>set (str_nat n). 48 \<le> (of_char c :: nat) \<and> (of_char c :: nat) \<le> 57)
   \<and> (n \<noteq> 0 \<longrightarrow> hd (str_nat n) \<noteq> CHR ''0'')"
proof (induction n rule: str_nat.induct)
  case (1 n)
  show ?case
  proof (cases "n < 10")
    case True
    then have code: "(of_char (digit_char n) :: nat) = 48 + n"
      using digit_char_code by simp
    have "n \<noteq> 0 \<longrightarrow> digit_char n \<noteq> CHR ''0''"
    proof (intro impI notI)
      assume "n \<noteq> 0" and "digit_char n = CHR ''0''"
      with code show False by simp
    qed
    then show ?thesis
      using True code by (simp add: str_nat.simps [of n] decimal_value_def)
  next
    case False
    let ?q = "n div 10" and ?r = "n mod 10"
    have ih: "decimal_value (str_nat ?q) = ?q" "str_nat ?q \<noteq> []"
             "\<forall>c\<in>set (str_nat ?q). 48 \<le> (of_char c :: nat) \<and> (of_char c :: nat) \<le> 57"
             "hd (str_nat ?q) \<noteq> CHR ''0''"
      using "1.IH" False by simp_all
    have r: "(of_char (digit_char ?r) :: nat) = 48 + ?r"
      using digit_char_code by simp
    have unfold: "str_nat n = str_nat ?q @ [digit_char ?r]"
      using False by (simp add: str_nat.simps [of n])
    have "decimal_value (str_nat n) = n"
      by (simp add: unfold decimal_value_snoc ih(1) r)
    moreover have "\<forall>c\<in>set (str_nat n). 48 \<le> (of_char c :: nat) \<and> (of_char c :: nat) \<le> 57"
      using ih(3) r by (simp add: unfold)
    moreover have "hd (str_nat n) \<noteq> CHR ''0''"
      using ih(2,4) by (simp add: unfold)
    ultimately show ?thesis by (simp add: unfold)
  qed
qed

text \<open>
  C5.  The prompt built by \<open>_factor_selection_prompt\<close> is the enumeration of the enrolled
  factors, one line \<open>"<position>) <displayName>"\<close> each, positions from 1 in list order,
  followed by the line "Select a factor: ".  The position is written as its decimal
  numeral: digits only, no leading zero, and read back it is the position.  For the
  factors (7, "Device A") and (9, "Device B") the prompt is exactly
  "1) Device A\<newline>2) Device B\<newline>Select a factor: " (with line feeds).
  \<open>_init_factor_selection\<close> emits it, for a non-empty list of enrolled factors, as a request
  for the field \<open>user_factor_selection\<close>.
\<close>

theorem factor_selection_prompt_enumerates:
  "factor_selection_prompt self = enumerated_prompt (enrolled_factors self)
   \<and> (\<forall>position. decimal_value (str_nat position) = position \<and> str_nat position \<noteq> []
          \<and> (\<forall>c\<in>set (str_nat position). 48 \<le> (of_char c :: nat) \<and> (of_char c :: nat) \<le> 57)
          \<and> (position \<noteq> 0 \<longrightarrow> hd (str_nat position) \<noteq> CHR ''0''))
   \<and> (enrolled_factors self = [(7, ''Device A''), (9, ''Device B'')] \<longrightarrow>
        factor_selection_prompt self = ''1) Device A\<newline>2) Device B\<newline>Select a factor: '')
   \<and> (\<forall>factors w1. get_enrolled_factors (plugin_authenticator self) (mfa_identity self) w
                       = (Inr factors, w1) \<and> factors \<noteq> [] \<longrightarrow>
        fst (init_factor_selection self w)
          = Inr (NeedInfo (enumerated_prompt (map (\<lambda>f. (device_id f, user_display_name f)) factors))
                          ''user_factor_selection''))"
proof (intro conjI allI impI)
  show e: "factor_selection_prompt self = enumerated_prompt (enrolled_factors self)" for self
    using prompt_loop_lines [of 1 "enrolled_factors self" "[]"]
    by (simp add: factor_selection_prompt_def enumerated_prompt_def)
  show "factor_selection_prompt self = ''1) Device A\<newline>2) Device B\<newline>Select a factor: ''"
    if "enrolled_factors self = [(7, ''Device A''), (9, ''Device B'')]"
    using that by (simp add: factor_selection_prompt_def str_nat.simps digit_char_def)
  show "fst (init_factor_selection self w)
          = Inr (NeedInfo (enumerated_prompt (map (\<lambda>f. (device_id f, user_display_name f)) factors))
                          ''user_factor_selection'')"
    if "get_enrolled_factors (plugin_authenticator self) (mfa_identity self) w = (Inr factors, w1)
          \<and> factors \<noteq> []" for factors w1
    using that by (simp add: init_factor_selection_def Let_def e)
qed (use str_nat_decimal in blast)+


theorem factor_selection_prompt_enumerates_witness:
  "fst (init_factor_selection (example_plugin (scripted 0 ''accepted'' 0)) start_world)
     = Inr (NeedInfo ''1) Device A\<newline>2) Device B\<newline>Select a factor: '' ''user_factor_selection'')
   \<and> factor_selection_prompt
        ((example_plugin (scripted 0 ''accepted'' 0))\<lparr>enrolled_factors := [(7, ''Device A''), (9, ''Device B'')]\<rparr>)
     = ''1) Device A\<newline>2) Device B\<newline>Select a factor: ''
   \<and> factor_selection_prompt
        ((example_plugin (scripted 0 ''accepted'' 0))
           \<lparr>enrolled_factors := [(21, ''a''), (22, ''b''), (23, ''c''), (24, ''d''), (25, ''e''), (26, ''f''),
                                  (27, ''g''), (28, ''h''), (29, ''i''), (30, ''j''), (31, ''k'')]\<rparr>)
     = ''1) a\<newline>2) b\<newline>3) c\<newline>4) d\<newline>5) e\<newline>6) f\<newline>7) g\<newline>8) h\<newline>9) i\<newline>10) j\<newline>11) k\<newline>Select a factor: ''
   \<and> decimal_value (str_nat 4300) = 4300"
proof -
  let ?p = "example_plugin (scripted 0 ''accepted'' 0)"
  let ?two = "?p\<lparr>enrolled_factors := [(7, ''Device A''), (9, ''Device B'')]\<rparr>"
  let ?many = "?p\<lparr>enrolled_factors := [(21, ''a''), (22, ''b''), (23, ''c''), (24, ''d''), (25, ''e''),
                                           (26, ''f''), (27, ''g''), (28, ''h''), (29, ''i''), (30, ''j''),
                                           (31, ''k'')]\<rparr>"
  let ?w = "\<lparr>clock = 100, calls = [GetUsers [(''username'', ''alice''), (''fields'', ''id'')],
                                    GetEnrolledFactors 42]\<rparr>"
  have h: "get_enrolled_factors (plugin_authenticator ?p) (mfa_identity ?p) start_world
             = (Inr [device_a, device_b], ?w) \<and> [device_a, device_b] \<noteq> []"
    by (simp add: example_plugin_def get_enrolled_factors_def get_user_def example_defs)
  have "fst (init_factor_selection ?p start_world)
          = Inr (NeedInfo (enumerated_prompt (map (\<lambda>f. (device_id f, user_display_name f))
                                                  [device_a, device_b]))
                          ''user_factor_selection'')"
    using factor_selection_prompt_enumerates [of ?p start_world,
            THEN conjunct2, THEN conjunct2, THEN conjunct2, rule_format, OF h] .
  moreover have q: "factor_selection_prompt ?two
                   = ''1) Device A\<newline>2) Device B\<newline>Select a factor: ''"
    using factor_selection_prompt_enumerates
            [of ?two start_world, THEN conjunct2, THEN conjunct2, THEN conjunct1]
    by simp
  moreover have "enumerated_prompt (map (\<lambda>f. (device_id f, user_display_name f)) [device_a, device_b])
                   = factor_selection_prompt ?two"
    using factor_selection_prompt_enumerates [of ?two start_world, THEN conjunct1]
    by (simp add: device_a_def device_b_def)
  moreover have "factor_selection_prompt ?many
      = ''1) a\<newline>2) b\<newline>3) c\<newline>4) d\<newline>5) e\<newline>6) f\<newline>7) g\<newline>8) h\<newline>9) i\<newline>10) j\<newline>11) k\<newline>Select a factor: ''"
    using factor_selection_prompt_enumerates [of ?many start_world, THEN conjunct1]
    by (simp add: enumerated_prompt_def upt_rec str_nat.simps digit_char_def)
  moreover have "decimal_value (str_nat 4300) = 4300"
    using factor_selection_prompt_enumerates
            [of ?p start_world, THEN conjunct2, THEN conjunct1, rule_format, of 4300]
    by simp
  ultimately show ?thesis by simp
qed

text \<open>
  C8.  When no selection is in progress and the credential is "!select":
  with factor selection disabled the turn is denied with "Factor selection not
  available"; otherwise, with a protocol outside the allowlist, with "Factor selection
  not supported"; otherwise, when the user has no enrolled factor, with "No factors
  found"; otherwise the factors are stored as (id, display name) pairs, the in-progress
  flag is set and the prompt is emitted as a request for more input.
\<close>

theorem select_command_outcomes:
  assumes "\<not> factor_selection_in_progress self"
      and "mfa_password self = Some ''!select''"
  shows "(\<not> factor_selection_enabled self \<longrightarrow>
            do_authenticate self w = (Deny ''Factor selection not available'', self, w))
       \<and> (factor_selection_enabled self
            \<and> protocol self \<notin> set FACTOR_SELECTION_SUPPORTED_PROTOCOLS \<longrightarrow>
            do_authenticate self w = (Deny ''Factor selection not supported'', self, w))
       \<and> (\<forall>w1. factor_selection_enabled self
            \<and> protocol self \<in> set FACTOR_SELECTION_SUPPORTED_PROTOCOLS
            \<and> get_enrolled_factors (plugin_authenticator self) (mfa_identity self) w = (Inr [], w1) \<longrightarrow>
            do_authenticate self w = (Deny ''No factors found'', self, w1))
       \<and> (\<forall>factors w1. factor_selection_enabled self
            \<and> protocol self \<in> set FACTOR_SELECTION_SUPPORTED_PROTOCOLS
            \<and> get_enrolled_factors (plugin_authenticator self) (mfa_identity self) w
                = (Inr factors, w1)
            \<and> factors \<noteq> [] \<longrightarrow>
            do_authenticate self w
              = (NeedInfo (factor_selection_prompt
                             (self\<lparr>enrolled_factors :=
                                      map (\<lambda>f. (device_id f, user_display_name f)) factors,
                                    factor_selection_in_progress := True\<rparr>))
                          ''user_factor_selection'',
                 self\<lparr>enrolled_factors := map (\<lambda>f. (device_id f, user_display_name f)) factors,
                      factor_selection_in_progress := True\<rparr>,
                 w1))"
  using assms
  by (simp add: do_authenticate_def do_authenticate_try_def run_factor_selection_command_def
                factor_selection_supported_def init_factor_selection_def Let_def)

theorem select_command_outcomes_witness:
  "do_authenticate ((example_plugin (scripted 0 ''accepted'' 0))\<lparr>factor_selection_enabled := False\<rparr>) start_world
     = (Deny ''Factor selection not available'',
        (example_plugin (scripted 0 ''accepted'' 0))\<lparr>factor_selection_enabled := False\<rparr>, start_world)
   \<and> do_authenticate ((example_plugin (scripted 0 ''accepted'' 0))\<lparr>protocol := ''rdp''\<rparr>) start_world
     = (Deny ''Factor selection not supported'',
        (example_plugin (scripted 0 ''accepted'' 0))\<lparr>protocol := ''rdp''\<rparr>, start_world)
   \<and> fst (do_authenticate ((example_plugin (scripted 0 ''accepted'' 0))\<lparr>mfa_identity := ''carol''\<rparr>) start_world)
     = Deny ''No factors found''
   \<and> do_authenticate (example_plugin (scripted 0 ''accepted'' 0)) start_world
     = (NeedInfo ''1) Device A\<newline>2) Device B\<newline>Select a factor: '' ''user_factor_selection'',
        (example_plugin (scripted 0 ''accepted'' 0))
          \<lparr>enrolled_factors := [(7, ''Device A''), (9, ''Device B'')],
           factor_selection_in_progress := True\<rparr>,
        \<lparr>clock = 100, calls = [GetUsers [(''username'', ''alice''), (''fields'', ''id'')],
                               GetEnrolledFactors 42]\<rparr>)"
proof -
  let ?p = "example_plugin (scripted 0 ''accepted'' 0)"
  let ?wc = "\<lparr>clock = 100, calls = [GetUsers [(''username'', ''carol''), (''fields'', ''id'')],
                                     GetEnrolledFactors 43]\<rparr>"
  let ?wa = "\<lparr>clock = 100, calls = [GetUsers [(''username'', ''alice''), (''fields'', ''id'')],
                                     GetEnrolledFactors 42]\<rparr>"
  have "do_authenticate (?p\<lparr>factor_selection_enabled := False\<rparr>) start_world
          = (Deny ''Factor selection not available'', ?p\<lparr>factor_selection_enabled := False\<rparr>, start_world)"
    using select_command_outcomes [of "?p\<lparr>factor_selection_enabled := False\<rparr>" start_world]
    by (simp add: example_plugin_def)
  moreover have "do_authenticate (?p\<lparr>protocol := ''rdp''\<rparr>) start_world
          = (Deny ''Factor selection not supported'', ?p\<lparr>protocol := ''rdp''\<rparr>, start_world)"
    using select_command_outcomes [of "?p\<lparr>protocol := ''rdp''\<rparr>" start_world]
    by (simp add: example_plugin_def FACTOR_SELECTION_SUPPORTED_PROTOCOLS_def)
  moreover have "do_authenticate (?p\<lparr>mfa_identity := ''carol''\<rparr>) start_world
          = (Deny ''No factors found'', ?p\<lparr>mfa_identity := ''carol''\<rparr>, ?wc)"
  proof -
    have c: "factor_selection_enabled (?p\<lparr>mfa_identity := ''carol''\<rparr>)
             \<and> protocol (?p\<lparr>mfa_identity := ''carol''\<rparr>) \<in> set FACTOR_SELECTION_SUPPORTED_PROTOCOLS
             \<and> get_enrolled_factors (plugin_authenticator (?p\<lparr>mfa_identity := ''carol''\<rparr>))
                  (mfa_identity (?p\<lparr>mfa_identity := ''carol''\<rparr>)) start_world = (Inr [], ?wc)"
      by (simp add: example_plugin_def FACTOR_SELECTION_SUPPORTED_PROTOCOLS_def
                    get_enrolled_factors_def get_user_def example_defs)
    have a: "\<not> factor_selection_in_progress (?p\<lparr>mfa_identity := ''carol''\<rparr>)"
      and b: "mfa_password (?p\<lparr>mfa_identity := ''carol''\<rparr>) = Some ''!select''"
      by (simp_all add: example_plugin_def)
    show ?thesis
      using select_command_outcomes [OF a b, of start_world,
              THEN conjunct2, THEN conjunct2, THEN conjunct1, rule_format, OF c] .
  qed
  moreover have "do_authenticate ?p start_world
          = (NeedInfo ''1) Device A\<newline>2) Device B\<newline>Select a factor: '' ''user_factor_selection'',
             ?p\<lparr>enrolled_factors := [(7, ''Device A''), (9, ''Device B'')],
                factor_selection_in_progress := True\<rparr>, ?wa)"
  proof -
    have c: "factor_selection_enabled ?p
             \<and> protocol ?p \<in> set FACTOR_SELECTION_SUPPORTED_PROTOCOLS
             \<and> get_enrolled_factors (plugin_authenticator ?p) (mfa_identity ?p) start_world
                 = (Inr [device_a, device_b], ?wa)
             \<and> [device_a, device_b] \<noteq> []"
      by (simp add: example_plugin_def FACTOR_SELECTION_SUPPORTED_PROTOCOLS_def
                    get_enrolled_factors_def get_user_def example_defs)
    have a: "\<not> factor_selection_in_progress ?p"
      and b: "mfa_password ?p = Some ''!select''"
      by (simp_all add: example_plugin_def)
    show ?thesis
      using select_command_outcomes [OF a b, of start_world,
              THEN conjunct2, THEN conjunct2, THEN conjunct2, rule_format, OF c]
      by (simp add: factor_selection_prompt_def str_nat.simps digit_char_def
                    device_a_def device_b_def)
  qed
  ultimately show ?thesis by simp
qed

section \<open>Finishing the factor selection\<close>

lemmas py_int_defs = py_int_def py_strip_def ascii_isspace_def unicode_isspace_def
  unicode_todecimal_def decimal_zeros_def to_ascii_def parse_unsigned_def is_digit_def
  digit_value_def int_max_str_digits_def py_str_def

lemma selected_factor_id_valid:
  assumes "key_value_pairs self ''user_factor_selection'' = Some selection"
      and "py_int selection = Some n" and "1 \<le> n" and "n \<le> int (length (enrolled_factors self))"
  shows "selected_factor_id self = Inr (fst (enrolled_factors self ! nat (n - 1)))"
  using assms by (auto simp: selected_factor_id_def Let_def)

lemma selected_factor_id_invalid:
  assumes "key_value_pairs self ''user_factor_selection'' = None
           \<or> (\<exists>selection. key_value_pairs self ''user_factor_selection'' = Some selection
                 \<and> (py_int selection = None
                     \<or> (\<exists>n. py_int selection = Some n
                            \<and> (n < 1 \<or> int (length (enrolled_factors self)) < n))))"
  shows "\<exists>e. selected_factor_id self = Inl e \<and> caught_by_selection e"
  using assms by (auto simp: selected_factor_id_def Let_def caught_by_selection_def)

lemma selected_factor_id_flag [simp]:
  "selected_factor_id (self\<lparr>factor_selection_in_progress := b\<rparr>) = selected_factor_id self"
  by (simp add: selected_factor_id_def Let_def split: option.splits)

text \<open>
  A selection is in progress only after a turn whose credential was "!select", and that
  turn leaves the key/value pairs as they are.  The credential of a turn is the answer
  buffered under \<open>otp\<close>, and the answers of a session accumulate; so the \<open>otp\<close> entry is
  still buffered when the answer to the selection prompt arrives.
\<close>

lemma selection_starts_on_select_turn:
  assumes "\<not> factor_selection_in_progress self"
      and "factor_selection_in_progress (fst (snd (do_authenticate self w)))"
  shows "password_text (mfa_password self) = ''!select''
       \<and> key_value_pairs (fst (snd (do_authenticate self w))) = key_value_pairs self"
  using assms
  by (auto simp: do_authenticate_def do_authenticate_try_def run_factor_selection_command_def
                 init_factor_selection_def Let_def
           split: if_splits prod.splits sum.splits)

lemma otp_buffered_during_selection:
  assumes "\<not> factor_selection_in_progress self"
      and "key_value_pairs self ''otp'' = Some credential"
      and "factor_selection_in_progress (fst (snd (do_authenticate self w)))"
  shows "key_value_pairs
           ((fst (snd (do_authenticate self w)))
              \<lparr>key_value_pairs := (key_value_pairs (fst (snd (do_authenticate self w))))
                                    (''user_factor_selection'' \<mapsto> answer)\<rparr>) ''otp''
         = Some credential"
  using selection_starts_on_select_turn [OF assms(1,3)] assms(2) by simp

text \<open>
  C3.  On a turn that arrives while a selection is in progress, the answer is read as a
  1-based position in the enrolled factors.  A valid position stores the id of that
  factor (the answer "2" against (7, "Device A"), (9, "Device B") stores 9), clears the
  in-progress flag, drops the buffered \<open>otp\<close> entry and asks for the credential.  A
  missing answer, an answer that is no number and a position outside the list (such as
  "0", "3" or "abc") are denied with "Invalid selection".  The flag is cleared in every
  case.
\<close>

theorem selection_turn_outcomes:
  assumes "factor_selection_in_progress self"
  shows "(\<forall>selection n buffered.
            key_value_pairs self ''user_factor_selection'' = Some selection
            \<and> py_int selection = Some n \<and> 1 \<le> n \<and> n \<le> int (length (enrolled_factors self))
            \<and> key_value_pairs self ''otp'' = Some buffered \<longrightarrow>
            do_authenticate self w
              = (NeedInfo (mfa_question self) (mfa_key self),
                 self\<lparr>factor_selection_in_progress := False,
                      user_selected_factor_id := Some (fst (enrolled_factors self ! nat (n - 1))),
                      key_value_pairs := (key_value_pairs self)(''otp'' := None)\<rparr>,
                 w))
       \<and> ((key_value_pairs self ''user_factor_selection'' = None
            \<or> (\<exists>selection. key_value_pairs self ''user_factor_selection'' = Some selection
                 \<and> (py_int selection = None
                     \<or> (\<exists>n. py_int selection = Some n
                            \<and> (n < 1 \<or> int (length (enrolled_factors self)) < n))))) \<longrightarrow>
            do_authenticate self w
              = (Deny ''Invalid selection'', self\<lparr>factor_selection_in_progress := False\<rparr>, w))
       \<and> \<not> factor_selection_in_progress (fst (snd (do_authenticate self w)))"
proof (intro conjI allI impI)
  fix selection n buffered
  assume h: "key_value_pairs self ''user_factor_selection'' = Some selection
             \<and> py_int selection = Some n \<and> 1 \<le> n \<and> n \<le> int (length (enrolled_factors self))
             \<and> key_value_pairs self ''otp'' = Some buffered"
  then have "selected_factor_id self = Inr (fst (enrolled_factors self ! nat (n - 1)))"
    using selected_factor_id_valid [of self selection n] by simp
  with assms h show "do_authenticate self w
      = (NeedInfo (mfa_question self) (mfa_key self),
         self\<lparr>factor_selection_in_progress := False,
              user_selected_factor_id := Some (fst (enrolled_factors self ! nat (n - 1))),
              key_value_pairs := (key_value_pairs self)(''otp'' := None)\<rparr>, w)"
    by (simp add: do_authenticate_def do_authenticate_try_def finish_factor_selection_def
                  Let_def ask_mfa_password_def)
next
  assume "key_value_pairs self ''user_factor_selection'' = None
            \<or> (\<exists>selection. key_value_pairs self ''user_factor_selection'' = Some selection
                 \<and> (py_int selection = None
                     \<or> (\<exists>n. py_int selection = Some n
                            \<and> (n < 1 \<or> int (length (enrolled_factors self)) < n))))"
  then obtain e where "selected_factor_id self = Inl e" and "caught_by_selection e"
    using selected_factor_id_invalid [of self] by blast
  with assms show "do_authenticate self w
      = (Deny ''Invalid selection'', self\<lparr>factor_selection_in_progress := False\<rparr>, w)"
    by (simp add: do_authenticate_def do_authenticate_try_def finish_factor_selection_def Let_def)
next
  show "\<not> factor_selection_in_progress (fst (snd (do_authenticate self w)))"
    using assms
    by (auto simp: do_authenticate_def do_authenticate_try_def finish_factor_selection_def Let_def
             split: sum.splits option.splits)
qed

theorem selection_turn_outcomes_witness:
  "do_authenticate (selecting_plugin [''otp'' \<mapsto> py_str ''!select'',
                                      ''user_factor_selection'' \<mapsto> py_str ''2'']) start_world
     = (NeedInfo ''One-time password: '' ''otp'',
        (selecting_plugin [''user_factor_selection'' \<mapsto> py_str ''2''])
          \<lparr>factor_selection_in_progress := False, user_selected_factor_id := Some 9\<rparr>,
        start_world)
   \<and> do_authenticate (selecting_plugin [''otp'' \<mapsto> py_str ''!select'',
                                        ''user_factor_selection'' \<mapsto> py_str ''0'']) start_world
     = (Deny ''Invalid selection'',
        (selecting_plugin [''otp'' \<mapsto> py_str ''!select'', ''user_factor_selection'' \<mapsto> py_str ''0''])
          \<lparr>factor_selection_in_progress := False\<rparr>,
        start_world)
   \<and> fst (do_authenticate (selecting_plugin [''otp'' \<mapsto> py_str ''!select'',
                                             ''user_factor_selection'' \<mapsto> py_str ''3'']) start_world)
     = Deny ''Invalid selection''
   \<and> fst (do_authenticate (selecting_plugin [''otp'' \<mapsto> py_str ''!select'',
                                             ''user_factor_selection'' \<mapsto> py_str ''abc'']) start_world)
     = Deny ''Invalid selection''
   \<and> fst (do_authenticate (selecting_plugin [''otp'' \<mapsto> py_str ''!select'',
                                             ''user_factor_selection'' \<mapsto> [0x1F, 0x32]]) start_world)
     = Deny ''Invalid selection''
   \<and> fst (do_authenticate (selecting_plugin [''otp'' \<mapsto> py_str ''!select'']) start_world)
     = Deny ''Invalid selection''"
proof -
  let ?otp = "py_str ''!select''"
  let ?two = "selecting_plugin [''otp'' \<mapsto> ?otp, ''user_factor_selection'' \<mapsto> py_str ''2'']"
  let ?zero = "selecting_plugin [''otp'' \<mapsto> ?otp, ''user_factor_selection'' \<mapsto> py_str ''0'']"
  let ?three = "selecting_plugin [''otp'' \<mapsto> ?otp, ''user_factor_selection'' \<mapsto> py_str ''3'']"
  let ?abc = "selecting_plugin [''otp'' \<mapsto> ?otp, ''user_factor_selection'' \<mapsto> py_str ''abc'']"
  let ?ctl = "selecting_plugin [''otp'' \<mapsto> ?otp, ''user_factor_selection'' \<mapsto> [0x1F, 0x32]]"
  let ?none = "selecting_plugin [''otp'' \<mapsto> ?otp]"
  have progress: "factor_selection_in_progress (selecting_plugin answers)" for answers
    by (simp add: selecting_plugin_def)
  have two: "key_value_pairs ?two ''user_factor_selection'' = Some (py_str ''2'')
             \<and> py_int (py_str ''2'') = Some 2 \<and> (1::int) \<le> 2
             \<and> 2 \<le> int (length (enrolled_factors ?two))
             \<and> key_value_pairs ?two ''otp'' = Some ?otp"
    by (simp add: selecting_plugin_def py_int_defs)
  have zero: "key_value_pairs ?zero ''user_factor_selection'' = None
              \<or> (\<exists>selection. key_value_pairs ?zero ''user_factor_selection'' = Some selection
                   \<and> (py_int selection = None
                       \<or> (\<exists>n. py_int selection = Some n
                              \<and> (n < 1 \<or> int (length (enrolled_factors ?zero)) < n))))"
    by (simp add: selecting_plugin_def py_int_defs)
  have three: "key_value_pairs ?three ''user_factor_selection'' = None
              \<or> (\<exists>selection. key_value_pairs ?three ''user_factor_selection'' = Some selection
                   \<and> (py_int selection = None
                       \<or> (\<exists>n. py_int selection = Some n
                              \<and> (n < 1 \<or> int (length (enrolled_factors ?three)) < n))))"
    by (simp add: selecting_plugin_def py_int_defs)
  have abc: "key_value_pairs ?abc ''user_factor_selection'' = None
              \<or> (\<exists>selection. key_value_pairs ?abc ''user_factor_selection'' = Some selection
                   \<and> (py_int selection = None
                       \<or> (\<exists>n. py_int selection = Some n
                              \<and> (n < 1 \<or> int (length (enrolled_factors ?abc)) < n))))"
    by (simp add: selecting_plugin_def py_int_defs)
  have ctl: "key_value_pairs ?ctl ''user_factor_selection'' = None
              \<or> (\<exists>selection. key_value_pairs ?ctl ''user_factor_selection'' = Some selection
                   \<and> (py_int selection = None
                       \<or> (\<exists>n. py_int selection = Some n
                              \<and> (n < 1 \<or> int (length (enrolled_factors ?ctl)) < n))))"
    by (simp add: selecting_plugin_def py_int_defs)
  have none: "key_value_pairs ?none ''user_factor_selection'' = None
              \<or> (\<exists>selection. key_value_pairs ?none ''user_factor_selection'' = Some selection
                   \<and> (py_int selection = None
                       \<or> (\<exists>n. py_int selection = Some n
                              \<and> (n < 1 \<or> int (length (enrolled_factors ?none)) < n))))"
    by (simp add: selecting_plugin_def)
  note valid = selection_turn_outcomes [OF progress, THEN conjunct1, rule_format]
  note invalid = selection_turn_outcomes [OF progress, THEN conjunct2, THEN conjunct1, rule_format]
  have "do_authenticate ?two start_world
          = (NeedInfo ''One-time password: '' ''otp'',
             (selecting_plugin [''user_factor_selection'' \<mapsto> py_str ''2''])
               \<lparr>factor_selection_in_progress := False, user_selected_factor_id := Some 9\<rparr>,
             start_world)"
    using valid [OF two, of start_world]
    by (simp add: selecting_plugin_def example_plugin_def fun_upd_twist)
  moreover have "do_authenticate ?zero start_world
          = (Deny ''Invalid selection'', ?zero\<lparr>factor_selection_in_progress := False\<rparr>, start_world)"
    using invalid [OF zero, of start_world] .
  moreover have "fst (do_authenticate ?three start_world) = Deny ''Invalid selection''"
    using invalid [OF three, of start_world] by simp
  moreover have "fst (do_authenticate ?abc start_world) = Deny ''Invalid selection''"
    using invalid [OF abc, of start_world] by simp
  moreover have "fst (do_authenticate ?ctl start_world) = Deny ''Invalid selection''"
    using invalid [OF ctl, of start_world] by simp
  moreover have "fst (do_authenticate ?none start_world) = Deny ''Invalid selection''"
    using invalid [OF none, of start_world] by simp
  ultimately show ?thesis by simp
qed

text \<open>
  C10.  When a valid position is submitted and the key/value pairs hold no \<open>otp\<close> entry,
  \<open>_finish_factor_selection\<close> leaves with \<open>KeyError\<close>, which its own \<open>except\<close> clause does not
  catch; \<open>do_authenticate\<close> answers with the generic deny and not with a request for more
  input; the selected factor id is stored all the same, and the flag is cleared.
\<close>

theorem pop_without_otp_raises:
  assumes "factor_selection_in_progress self"
      and "key_value_pairs self ''user_factor_selection'' = Some selection"
      and "py_int selection = Some n"
      and "1 \<le> n" and "n \<le> int (length (enrolled_factors self))"
      and "key_value_pairs self ''otp'' = None"
  shows "finish_factor_selection self
           = (Inl (KeyError ''otp''),
              self\<lparr>factor_selection_in_progress := False,
                   user_selected_factor_id := Some (fst (enrolled_factors self ! nat (n - 1)))\<rparr>)
       \<and> do_authenticate self w
           = (Deny ''An error occured'',
              self\<lparr>factor_selection_in_progress := False,
                   user_selected_factor_id := Some (fst (enrolled_factors self ! nat (n - 1)))\<rparr>,
              w)
       \<and> (\<forall>question key. fst (do_authenticate self w) \<noteq> NeedInfo question key)"
proof -
  have "selected_factor_id self = Inr (fst (enrolled_factors self ! nat (n - 1)))"
    using selected_factor_id_valid [OF assms(2-5)] .
  with assms(1,6) show ?thesis
    by (simp add: do_authenticate_def do_authenticate_try_def finish_factor_selection_def Let_def)
qed

theorem pop_without_otp_raises_witness:
  "finish_factor_selection (selecting_plugin [''user_factor_selection'' \<mapsto> py_str ''2''])
     = (Inl (KeyError ''otp''),
        (selecting_plugin [''user_factor_selection'' \<mapsto> py_str ''2''])
          \<lparr>factor_selection_in_progress := False, user_selected_factor_id := Some 9\<rparr>)
   \<and> do_authenticate (selecting_plugin [''user_factor_selection'' \<mapsto> py_str ''2'']) start_world
     = (Deny ''An error occured'',
        (selecting_plugin [''user_factor_selection'' \<mapsto> py_str ''2''])
          \<lparr>factor_selection_in_progress := False, user_selected_factor_id := Some 9\<rparr>,
        start_world)
   \<and> do_authenticate (selecting_plugin [''user_factor_selection'' \<mapsto> [0xA0, 0xFF11, 0x20]]) start_world
     = (Deny ''An error occured'',
        (selecting_plugin [''user_factor_selection'' \<mapsto> [0xA0, 0xFF11, 0x20]])
          \<lparr>factor_selection_in_progress := False, user_selected_factor_id := Some 7\<rparr>,
        start_world)"
proof -
  let ?p = "selecting_plugin [''user_factor_selection'' \<mapsto> py_str ''2'']"
  let ?q = "selecting_plugin [''user_factor_selection'' \<mapsto> [0xA0, 0xFF11, 0x20]]"
  have a: "factor_selection_in_progress ?p"
    and b: "key_value_pairs ?p ''user_factor_selection'' = Some (py_str ''2'')"
    and c: "py_int (py_str ''2'') = Some 2"
    and d: "(1::int) \<le> 2" "2 \<le> int (length (enrolled_factors ?p))"
    and e: "key_value_pairs ?p ''otp'' = None"
    by (simp_all add: selecting_plugin_def example_plugin_def py_int_defs)
  have a': "factor_selection_in_progress ?q"
    and b': "key_value_pairs ?q ''user_factor_selection'' = Some [0xA0, 0xFF11, 0x20]"
    and c': "py_int [0xA0, 0xFF11, 0x20] = Some 1"
    and d': "(1::int) \<le> 1" "1 \<le> int (length (enrolled_factors ?q))"
    and e': "key_value_pairs ?q ''otp'' = None"
    by (simp_all add: selecting_plugin_def example_plugin_def py_int_defs)
  show ?thesis
    using pop_without_otp_raises [OF a b c d e, of start_world]
          pop_without_otp_raises [OF a' b' c' d' e', of start_world]
    by (simp add: selecting_plugin_def example_plugin_def)
qed

section \<open>The top-level handler\<close>

text \<open>
  Whatever exception the authenticator raises in the OTP step, the push step or the
  factor listing of the selection command, the decision is the same deny; the exception
  and its message do not reach it.
\<close>

lemma authenticator_errors_denied_generically:
  assumes "\<not> factor_selection_in_progress self"
  shows "(\<forall>e w1. password_text (mfa_password self) \<noteq> []
            \<and> password_text (mfa_password self) \<noteq> ''!select''
            \<and> otp_authenticate (plugin_authenticator self) (mfa_identity self)
                 (password_text (mfa_password self)) (user_selected_factor_id self) w = (Inl e, w1) \<longrightarrow>
            do_authenticate self w = (Deny ''An error occured'', self, w1))
       \<and> (\<forall>e w1. password_text (mfa_password self) = []
            \<and> push_authenticate (plugin_authenticator self) (mfa_identity self)
                 (user_selected_factor_id self) w = (Inl e, w1) \<longrightarrow>
            do_authenticate self w = (Deny ''An error occured'', self, w1))
       \<and> (\<forall>e w1. password_text (mfa_password self) = ''!select''
            \<and> factor_selection_enabled self \<and> factor_selection_supported self
            \<and> get_enrolled_factors (plugin_authenticator self) (mfa_identity self) w = (Inl e, w1) \<longrightarrow>
            do_authenticate self w = (Deny ''An error occured'', self, w1))"
  using assms
  by (simp add: do_authenticate_def do_authenticate_try_def run_factor_selection_command_def
                init_factor_selection_def)

text \<open>
  C1.  An exception raised by the authenticator in any step is caught by \<open>do_authenticate\<close>
  and answered with one fixed deny, whatever the exception and its message.  The reason
  of that deny is misspelt in the source: it reads "An error occured" and not "An error
  occurred".  Shown for an unknown user (\<open>UserNotFound\<close> from the OTP step) and for a push
  that stays pending until the deadline (\<open>TimeOutError\<close>).
\<close>

theorem generic_deny_reason_spelling:
  "do_authenticate ((example_plugin (scripted 0 ''accepted'' 0))
                      \<lparr>mfa_identity := ''nobody'', mfa_password := Some ''123456''\<rparr>) start_world
     = (Deny ''An error occured'',
        (example_plugin (scripted 0 ''accepted'' 0))
          \<lparr>mfa_identity := ''nobody'', mfa_password := Some ''123456''\<rparr>,
        \<lparr>clock = 100, calls = [GetUsers [(''username'', ''nobody''), (''fields'', ''id'')]]\<rparr>)
   \<and> fst (do_authenticate ((example_plugin (scripted 100 ''accepted'' 7))\<lparr>mfa_password := None\<rparr>)
             start_world)
     = Deny ''An error occured''
   \<and> Deny ''An error occured'' \<noteq> Deny ''An error occurred''"
proof -
  have "fst (push_authenticate (example_authenticator (scripted 100 ''accepted'' 7)) ''alice'' None start_world)
          = Inl (TimeOutError ''Push verification timed out'')"
    by (simp add: push_authenticate_def activate_factor_def get_default_factor_def
          get_enrolled_factors_def get_user_def example_defs scripted_def
          push_poll_loop.simps poll_response_def after_poll_def sleep_def polls_made_def
          PUSH_VERIFICATION_POLL_TIMEOUT_def PUSH_VERIFICATION_POLL_FREQUENCY_def)
  then have "fst (do_authenticate ((example_plugin (scripted 100 ''accepted'' 7))\<lparr>mfa_password := None\<rparr>)
                    start_world) = Deny ''An error occured''"
    by (auto simp: do_authenticate_def do_authenticate_try_def example_plugin_def
             split: prod.splits sum.splits)
  moreover have "do_authenticate ((example_plugin (scripted 0 ''accepted'' 0))
                      \<lparr>mfa_identity := ''nobody'', mfa_password := Some ''123456''\<rparr>) start_world
     = (Deny ''An error occured'',
        (example_plugin (scripted 0 ''accepted'' 0))
          \<lparr>mfa_identity := ''nobody'', mfa_password := Some ''123456''\<rparr>,
        \<lparr>clock = 100, calls = [GetUsers [(''username'', ''nobody''), (''fields'', ''id'')]]\<rparr>)"
    by (simp add: do_authenticate_def do_authenticate_try_def example_plugin_def
          otp_authenticate_def get_user_def example_defs)
  ultimately show ?thesis by simp
qed

end
